theory Spec2Isabelle
  imports Complex_Main "HOL-Library.Sublist" "HOL-Library.AList"
begin

section \<open>Python values\<close>

text \<open>
  The scraper is dynamically typed Python: what it reads from the catalog feed and
  what it returns are dicts, lists, strings and numbers. They are modelled by one
  datatype. A dict is the list of its items in insertion order, with unique keys.
  A Python \<open>str\<close> is an Isabelle \<open>string\<close>, the list of its code points, which
  are below 256 here: a text with a code point from 256 on is outside the model.
\<close>

datatype pyfloat = Fin rat | PosInf | NegInf | NaN

datatype pyval =
    PNone
  | PBool bool
  | PInt int
  | PFloat pyfloat
  | PStr string
  | PList "pyval list"
  | PDict "(string \<times> pyval) list"

text \<open>
  Exceptions: \<open>requests.RequestException\<close> (and its subclasses) is the one class the
  orchestrator tells apart; every other exception carries its class name.
\<close>

datatype exn = RequestException string | OtherException string string

fun is_request_exception :: "exn \<Rightarrow> bool" where
  "is_request_exception (RequestException m) = True"
| "is_request_exception (OtherException c m) = False"

fun exn_str :: "exn \<Rightarrow> string" where
  "exn_str (RequestException m) = m"
| "exn_str (OtherException c m) = m"

fun truthy :: "pyval \<Rightarrow> bool" where
  "truthy PNone = False"
| "truthy (PBool b) = b"
| "truthy (PInt i) = (i \<noteq> 0)"
| "truthy (PFloat f) = (f \<noteq> Fin 0)"
| "truthy (PStr s) = (s \<noteq> [])"
| "truthy (PList xs) = (xs \<noteq> [])"
| "truthy (PDict kvs) = (kvs \<noteq> [])"

text \<open>\<open>d.get(key, default)\<close>: only a dict has the method.\<close>

fun py_get :: "pyval \<Rightarrow> string \<Rightarrow> pyval \<Rightarrow> exn + pyval" where
  "py_get (PDict kvs) k d = Inr (case map_of kvs k of None \<Rightarrow> d | Some v \<Rightarrow> v)"
| "py_get v k d = Inl (OtherException ''AttributeError'' ''object has no attribute get'')"

text \<open>Iterating a value in a \<open>for\<close>: a list gives its elements, a dict its keys, a
  string its characters; the other values are not iterable.\<close>

fun py_iter :: "pyval \<Rightarrow> exn + pyval list" where
  "py_iter (PList xs) = Inr xs"
| "py_iter (PDict kvs) = Inr (map (\<lambda>kv. PStr (fst kv)) kvs)"
| "py_iter (PStr s) = Inr (map (\<lambda>c. PStr [c]) s)"
| "py_iter v = Inl (OtherException ''TypeError'' ''object is not iterable'')"

subsection \<open>Floats and their order\<close>

text \<open>
  A finite float is the rational it denotes. Comparisons with NaN are false, as in
  Python, and \<open>min\<close>/\<open>max\<close> are the built-ins: one pass that keeps the first
  extreme element.
\<close>

fun py_lt :: "pyfloat \<Rightarrow> pyfloat \<Rightarrow> bool" where
  "py_lt NaN y = False"
| "py_lt x NaN = False"
| "py_lt (Fin a) (Fin b) = (a < b)"
| "py_lt (Fin a) PosInf = True"
| "py_lt (Fin a) NegInf = False"
| "py_lt PosInf y = False"
| "py_lt NegInf NegInf = False"
| "py_lt NegInf y = True"

fun py_min :: "pyfloat list \<Rightarrow> pyfloat" where
  "py_min [] = NaN"
| "py_min (x # xs) = fold (\<lambda>y best. if py_lt y best then y else best) xs x"

fun py_max :: "pyfloat list \<Rightarrow> pyfloat" where
  "py_max [] = NaN"
| "py_max (x # xs) = fold (\<lambda>y best. if py_lt best y then y else best) xs x"

section \<open>Strings\<close>

text \<open>
  The character classes and the \<open>str\<close> methods the scraper uses, on the code points
  below 256. Whitespace is what \<open>str.isspace\<close> and \<^verbatim>\<open>\s\<close> accept, a digit what
  \<^verbatim>\<open>\d\<close> accepts, a word character what \<^verbatim>\<open>\w\<close> accepts (letters, the characters
  Python counts as numeric, and the underscore). The letters with a capital below 256
  are raised by \<open>upper_char\<close>; the capitals of U+00B5, U+00DF and U+00FF are not
  below 256, and these three letters are left as they are.
\<close>

definition is_space :: "char \<Rightarrow> bool" where
  "is_space c = (c \<in> set [CHR 0x09, CHR 0x0A, CHR 0x0B, CHR 0x0C, CHR 0x0D,
                              CHR 0x1C, CHR 0x1D, CHR 0x1E, CHR 0x1F, CHR '' '',
                              CHR 0x85, CHR 0xA0])"

definition is_digit :: "char \<Rightarrow> bool" where
  "is_digit c = (48 \<le> (of_char c :: nat) \<and> (of_char c :: nat) \<le> 57)"

text \<open>The letters of the classes \<^verbatim>\<open>[A-Z]\<close> and \<^verbatim>\<open>[a-z]\<close>.\<close>

definition is_ascii_letter :: "char \<Rightarrow> bool" where
  "is_ascii_letter c =
     ((65 \<le> (of_char c :: nat) \<and> (of_char c :: nat) \<le> 90)
      \<or> (97 \<le> (of_char c :: nat) \<and> (of_char c :: nat) \<le> 122))"

text \<open>The capitals, and the small letters whose capital is below 256.\<close>

definition is_upper :: "char \<Rightarrow> bool" where
  "is_upper c =
     ((65 \<le> (of_char c :: nat) \<and> (of_char c :: nat) \<le> 90)
      \<or> (192 \<le> (of_char c :: nat) \<and> (of_char c :: nat) \<le> 222 \<and> (of_char c :: nat) \<noteq> 215))"

definition is_lower :: "char \<Rightarrow> bool" where
  "is_lower c =
     ((97 \<le> (of_char c :: nat) \<and> (of_char c :: nat) \<le> 122)
      \<or> (224 \<le> (of_char c :: nat) \<and> (of_char c :: nat) \<le> 254 \<and> (of_char c :: nat) \<noteq> 247))"

text \<open>The cased characters, which are the letters: those of ASCII, U+00AA, U+00B5,
  U+00BA, and U+00C0 to U+00FF without the signs U+00D7 and U+00F7.\<close>

definition is_cased :: "char \<Rightarrow> bool" where
  "is_cased c =
     (is_ascii_letter c
      \<or> (of_char c :: nat) \<in> set [170, 181, 186]
      \<or> (192 \<le> (of_char c :: nat) \<and> (of_char c :: nat) \<noteq> 215 \<and> (of_char c :: nat) \<noteq> 247))"

definition is_word :: "char \<Rightarrow> bool" where
  "is_word c =
     (is_cased c \<or> is_digit c \<or> c = CHR ''_''
      \<or> (of_char c :: nat) \<in> set [178, 179, 185, 188, 189, 190])"

definition lower_char :: "char \<Rightarrow> char" where
  "lower_char c = (if is_upper c then char_of (of_char c + (32::nat)) else c)"

definition upper_char :: "char \<Rightarrow> char" where
  "upper_char c = (if is_lower c then char_of (of_char c - (32::nat)) else c)"

definition lower :: "string \<Rightarrow> string" where
  "lower s = map lower_char s"

definition strip :: "string \<Rightarrow> string" where
  "strip s = rev (dropWhile is_space (rev (dropWhile is_space s)))"

definition startswith :: "string \<Rightarrow> string \<Rightarrow> bool" where
  "startswith s p = prefix p s"

text \<open>\<open>needle in haystack\<close>.\<close>

fun contains :: "string \<Rightarrow> string \<Rightarrow> bool" where
  "contains needle [] = (needle = [])"
| "contains needle (c # cs) = (prefix needle (c # cs) \<or> contains needle cs)"

text \<open>\<open>s.replace(old, new)\<close> for a non-empty \<open>old\<close>: every occurrence, left to right,
  without overlap. The counter is the number of characters of a replaced occurrence
  still to pass.\<close>

fun replace_from :: "nat \<Rightarrow> string \<Rightarrow> string \<Rightarrow> string \<Rightarrow> string" where
  "replace_from k old new [] = []"
| "replace_from k old new (c # cs) =
     (if k > 0 then replace_from (k - 1) old new cs
      else if prefix old (c # cs) then new @ replace_from (length old - 1) old new cs
      else c # replace_from 0 old new cs)"

definition replace :: "string \<Rightarrow> string \<Rightarrow> string \<Rightarrow> string" where
  "replace s old new = replace_from 0 old new s"

text \<open>\<open>s.title()\<close>: a letter after a letter is lowered, any other letter is raised.\<close>

fun title_from :: "bool \<Rightarrow> string \<Rightarrow> string" where
  "title_from previous_is_cased [] = []"
| "title_from previous_is_cased (c # cs) =
     (if previous_is_cased then lower_char c else upper_char c) # title_from (is_cased c) cs"

definition title :: "string \<Rightarrow> string" where
  "title s = title_from False s"

text \<open>\<open>s.split(sep)\<close> for a separator of one character.\<close>

fun split :: "char \<Rightarrow> string \<Rightarrow> string list" where
  "split sep [] = [[]]"
| "split sep (c # cs) =
     (if c = sep then [] # split sep cs
      else (case split sep cs of w # ws \<Rightarrow> (c # w) # ws | [] \<Rightarrow> [[c]]))"

section \<open>Regular expressions\<close>

text \<open>
  The patterns of the scraper use literal characters, character classes, greedy
  \<open>?\<close>, greedy repetition of a class, alternation, \<open>$\<close> and \<open>\b\<close>, and at most
  one group. The matcher is the backtracking one of \<open>re\<close>: it lists the ways a
  pattern matches at a cursor in the order \<open>re\<close> tries them, so the first one is the
  match \<open>re\<close> reports. A cursor is the character before it and the text after it.
\<close>

datatype rx =
    Eps
  | Cls "char \<Rightarrow> bool"
  | Cat rx rx
  | Alt rx rx
  | Opt rx
  | Rep nat "char \<Rightarrow> bool"
  | Eos
  | Wb

type_synonym cursor = "char option \<times> string"

fun runs :: "(char \<Rightarrow> bool) \<Rightarrow> cursor \<Rightarrow> cursor list" where
  "runs p (prev, []) = [(prev, [])]"
| "runs p (prev, c # cs) = (prev, c # cs) # (if p c then runs p (Some c, cs) else [])"

fun word_before :: "char option \<Rightarrow> bool" where
  "word_before None = False"
| "word_before (Some c) = is_word c"

fun word_after :: "string \<Rightarrow> bool" where
  "word_after [] = False"
| "word_after (c # cs) = is_word c"

fun rx_match :: "rx \<Rightarrow> cursor \<Rightarrow> cursor list" where
  "rx_match Eps x = [x]"
| "rx_match (Cls p) (prev, []) = []"
| "rx_match (Cls p) (prev, c # cs) = (if p c then [(Some c, cs)] else [])"
| "rx_match (Cat r1 r2) x = concat (map (rx_match r2) (rx_match r1 x))"
| "rx_match (Alt r1 r2) x = rx_match r1 x @ rx_match r2 x"
| "rx_match (Opt r) x = rx_match r x @ [x]"
| "rx_match (Rep n p) x = rev (drop n (runs p x))"
| "rx_match Eos (prev, s) = (if s = [] \<or> s = [CHR 0x0A] then [(prev, s)] else [])"
| "rx_match Wb (prev, s) = (if word_before prev \<noteq> word_after s then [(prev, s)] else [])"

text \<open>A literal, with or without \<open>re.IGNORECASE\<close>.\<close>

fun chars :: "bool \<Rightarrow> string \<Rightarrow> rx" where
  "chars ignorecase [] = Eps"
| "chars ignorecase (c # cs) =
     Cat (Cls (\<lambda>x. if ignorecase then lower_char x = lower_char c else x = c))
         (chars ignorecase cs)"

text \<open>A compiled pattern is what stands before its group, the group and what stands
  after it; a pattern without a group has it all before an empty group.\<close>

record pattern =
  before_group :: rx
  group :: rx
  after_group :: rx

record match =
  group0 :: string
  group1 :: string
  match_end :: cursor

definition consumed :: "cursor \<Rightarrow> cursor \<Rightarrow> string" where
  "consumed a b = take (length (snd a) - length (snd b)) (snd a)"

definition match_at :: "pattern \<Rightarrow> cursor \<Rightarrow> match option" where
  "match_at pat x =
     (case concat (map (\<lambda>a. concat (map (\<lambda>b. map (\<lambda>c.
                     \<lparr> group0 = consumed x c, group1 = consumed a b, match_end = c \<rparr>)
                   (rx_match (after_group pat) b))
                 (rx_match (group pat) a)))
               (rx_match (before_group pat) x)) of
        [] \<Rightarrow> None
      | m # ms \<Rightarrow> Some m)"

text \<open>\<open>re.search\<close>: the first cursor, left to right, where the pattern matches.\<close>

fun search_from :: "pattern \<Rightarrow> cursor \<Rightarrow> match option" where
  "search_from pat (prev, []) = match_at pat (prev, [])"
| "search_from pat (prev, c # cs) =
     (case match_at pat (prev, c # cs) of
        Some m \<Rightarrow> Some m
      | None \<Rightarrow> search_from pat (Some c, cs))"

definition re_search :: "pattern \<Rightarrow> string \<Rightarrow> match option" where
  "re_search pat s = search_from pat (None, s)"

text \<open>
  \<open>re.findall\<close> and \<open>re.sub\<close> with the replacement \<open>''\<close>: the matches left to right
  without overlap. The counter is the number of characters of the last match still to
  pass. None of the scraper's patterns matches the empty string; \<open>findall\<close> gives the
  group of each match when the pattern has one, and the whole match otherwise.
\<close>

fun matches_from :: "pattern \<Rightarrow> nat \<Rightarrow> cursor \<Rightarrow> match list" where
  "matches_from pat k (prev, []) =
     (if k > 0 then [] else (case match_at pat (prev, []) of None \<Rightarrow> [] | Some m \<Rightarrow> [m]))"
| "matches_from pat k (prev, c # cs) =
     (if k > 0 then matches_from pat (k - 1) (Some c, cs)
      else (case match_at pat (prev, c # cs) of
              None \<Rightarrow> matches_from pat 0 (Some c, cs)
            | Some m \<Rightarrow> m # matches_from pat (length (group0 m) - 1) (Some c, cs)))"

definition re_findall :: "bool \<Rightarrow> pattern \<Rightarrow> string \<Rightarrow> string list" where
  "re_findall has_group pat s =
     map (\<lambda>m. if has_group then group1 m else group0 m) (matches_from pat 0 (None, s))"

fun sub_from :: "pattern \<Rightarrow> nat \<Rightarrow> cursor \<Rightarrow> string" where
  "sub_from pat k (prev, []) = []"
| "sub_from pat k (prev, c # cs) =
     (if k > 0 then sub_from pat (k - 1) (Some c, cs)
      else (case match_at pat (prev, c # cs) of
              None \<Rightarrow> c # sub_from pat 0 (Some c, cs)
            | Some m \<Rightarrow>
                if group0 m = [] then c # sub_from pat 0 (Some c, cs)
                else sub_from pat (length (group0 m) - 1) (Some c, cs)))"

definition re_sub_empty :: "pattern \<Rightarrow> string \<Rightarrow> string" where
  "re_sub_empty pat s = sub_from pat 0 (None, s)"

section \<open>Documents\<close>

text \<open>
  A parsed document as BeautifulSoup (4.11 and later) holds it. A tag has a name, its
  attributes and its children. A string is text (\<open>NavigableString\<close>, also for a
  CDATA section), a comment (\<open>Comment\<close>, also for a doctype or a declaration), or a
  string in the container class of the element it stands in: the parser gives the
  strings inside \<open>script\<close>, \<open>style\<close>, \<open>template\<close>, \<open>rt\<close> and \<open>rp\<close> a
  class of their own, and \<open>Special name s\<close> is the string \<open>s\<close> in the class of
  \<open>name\<close>. The soup itself is a tag named \<open>[document]\<close>. Attribute values are kept
  as written; the value of \<open>class\<close> is split at whitespace where BeautifulSoup does
  it.
\<close>

datatype element =
    NavigableString string
  | Comment string
  | Special string string
  | Tag string "(string \<times> string) list" "element list"

record located =
  el :: element
  parent :: element
  next_siblings :: "element list"

text \<open>The descendants of a tag in document order, each with its parent and the
  siblings after it.\<close>

fun descendants :: "element \<Rightarrow> located list"
  and descendants_of_children :: "element \<Rightarrow> element list \<Rightarrow> located list" where
  "descendants (Tag name attrs children) =
     descendants_of_children (Tag name attrs children) children"
| "descendants (NavigableString s) = []"
| "descendants (Comment s) = []"
| "descendants (Special kind s) = []"
| "descendants_of_children par [] = []"
| "descendants_of_children par (c # cs) =
     \<lparr> el = c, parent = par, next_siblings = cs \<rparr>
       # descendants c @ descendants_of_children par cs"

text \<open>
  \<open>tag.get_text()\<close> joins the strings among the descendants of the tag that have
  the class the tag is interested in: the class of its own name when the tag is one
  of the five containers, and text otherwise. So the text of the document leaves out
  the content of a script, and the text of the script element is that content.
  Comments are never joined.
\<close>

definition string_containers :: "string list" where
  "string_containers = [''rt'', ''rp'', ''style'', ''script'', ''template'']"

fun all_strings :: "string \<Rightarrow> element \<Rightarrow> string" where
  "all_strings owner (NavigableString s) = (if owner \<in> set string_containers then [] else s)"
| "all_strings owner (Comment s) = []"
| "all_strings owner (Special kind s) = (if owner = kind then s else [])"
| "all_strings owner (Tag name attrs children) = concat (map (all_strings owner) children)"

fun get_text :: "element \<Rightarrow> string" where
  "get_text (Tag name attrs children) = concat (map (all_strings name) children)"
| "get_text (NavigableString s) = s"
| "get_text (Comment s) = []"
| "get_text (Special kind s) = []"

fun tag_name :: "element \<Rightarrow> string option" where
  "tag_name (Tag name attrs children) = Some name"
| "tag_name e = None"

text \<open>\<open>tag.get(key)\<close>.\<close>

fun attr :: "element \<Rightarrow> string \<Rightarrow> string option" where
  "attr (Tag name attrs children) key = map_of attrs key"
| "attr e key = None"

definition is_named :: "string list \<Rightarrow> element \<Rightarrow> bool" where
  "is_named names e = (case tag_name e of None \<Rightarrow> False | Some n \<Rightarrow> n \<in> set names)"

definition is_tag :: "element \<Rightarrow> bool" where
  "is_tag e = (tag_name e \<noteq> None)"

text \<open>\<open>find_all\<close> with a test on the tag, and \<open>find\<close>, its first result.\<close>

definition find_all_located :: "element \<Rightarrow> (element \<Rightarrow> bool) \<Rightarrow> located list" where
  "find_all_located e test = filter (\<lambda>l. is_tag (el l) \<and> test (el l)) (descendants e)"

definition find_all :: "element \<Rightarrow> (element \<Rightarrow> bool) \<Rightarrow> element list" where
  "find_all e test = map el (find_all_located e test)"

definition find :: "element \<Rightarrow> (element \<Rightarrow> bool) \<Rightarrow> element option" where
  "find e test = (case find_all e test of [] \<Rightarrow> None | x # xs \<Rightarrow> Some x)"

text \<open>\<open>find_next_sibling(names)\<close>: the first sibling after the tag that is a tag
  with one of the names.\<close>

definition find_next_sibling :: "located \<Rightarrow> string list \<Rightarrow> element option" where
  "find_next_sibling l names = List.find (is_named names) (next_siblings l)"

text \<open>The attribute filters: \<open>key=True\<close>, \<open>key='value'\<close>, \<open>key=re.compile(...)\<close>
  and \<open>class_=re.compile(...)\<close>. A class matches when one of its tokens does, or the
  tokens joined by a space do.\<close>

definition has_attr :: "string \<Rightarrow> element \<Rightarrow> bool" where
  "has_attr key e = (attr e key \<noteq> None)"

definition attr_is :: "string \<Rightarrow> string \<Rightarrow> element \<Rightarrow> bool" where
  "attr_is key v e = (attr e key = Some v)"

definition attr_matches :: "string \<Rightarrow> pattern \<Rightarrow> element \<Rightarrow> bool" where
  "attr_matches key pat e =
     (case attr e key of None \<Rightarrow> False | Some v \<Rightarrow> re_search pat v \<noteq> None)"

fun words_from :: "string \<Rightarrow> string \<Rightarrow> string list" where
  "words_from w [] = (if w = [] then [] else [w])"
| "words_from w (c # cs) =
     (if is_space c then (if w = [] then words_from [] cs else w # words_from [] cs)
      else words_from (w @ [c]) cs)"

fun join :: "string \<Rightarrow> string list \<Rightarrow> string" where
  "join sep [] = []"
| "join sep [w] = w"
| "join sep (w # ws) = w @ sep @ join sep ws"

definition class_matches :: "pattern \<Rightarrow> element \<Rightarrow> bool" where
  "class_matches pat e =
     (case attr e ''class'' of
        None \<Rightarrow> False
      | Some v \<Rightarrow>
          (let tokens = words_from [] v
           in list_ex (\<lambda>t. re_search pat t \<noteq> None) tokens
              \<or> re_search pat (join '' '' tokens) \<noteq> None))"

text \<open>\<open>find(text=re.compile(...))\<close>: the first string of the document, of any
  class, that the pattern matches.\<close>

fun string_of :: "element \<Rightarrow> string option" where
  "string_of (NavigableString s) = Some s"
| "string_of (Comment s) = Some s"
| "string_of (Special kind s) = Some s"
| "string_of (Tag name attrs children) = None"

definition find_string :: "element \<Rightarrow> pattern \<Rightarrow> located option" where
  "find_string e pat =
     List.find (\<lambda>l. case string_of (el l) of None \<Rightarrow> False | Some s \<Rightarrow> re_search pat s \<noteq> None)
       (descendants e)"

section \<open>Effects\<close>

text \<open>
  What a run does besides returning: the requests it sends and the lines it logs, in
  order. A step gives its result or the exception it raises, and its events.
\<close>

datatype level = Debug | Info | Warning | Error

datatype event = HttpGet string | Log level string

type_synonym 'a action = "(exn + 'a) \<times> event list"

definition and_then :: "'a action \<Rightarrow> ('a \<Rightarrow> 'b action) \<Rightarrow> 'b action" where
  "and_then m f =
     (case m of
        (Inl e, t) \<Rightarrow> (Inl e, t)
      | (Inr x, t) \<Rightarrow> (case f x of (r, t') \<Rightarrow> (r, t @ t')))"

definition pure_step :: "exn + 'a \<Rightarrow> 'a action" where
  "pure_step r = (r, [])"

function str_of_nat :: "nat \<Rightarrow> string" where
  "str_of_nat n =
     (if n < 10 then [char_of (48 + n)]
      else str_of_nat (n div 10) @ [char_of (48 + n mod 10)])"
  by pat_completeness auto
termination
  by (relation "measure id") auto

definition str_of_int :: "int \<Rightarrow> string" where
  "str_of_int i = (if i < 0 then ''-'' @ str_of_nat (nat (- i)) else str_of_nat (nat i))"

section \<open>The environment: the libraries and the network\<close>

record response =
  status_code :: int
  content :: string
  resp_text :: string
  json :: "exn + pyval"

text \<open>
  What the scraper calls but does not define: the HTTP session, the URL functions of
  \<open>urllib.parse\<close>, the conversions of the \<open>float\<close> and \<open>str\<close> built-ins, and
  trafilatura and the HTML parser. Each may raise.
\<close>

record env =
  session_get :: "string \<Rightarrow> exn + response"
  urljoin :: "string \<Rightarrow> string \<Rightarrow> exn + string"
  urlparse_netloc :: "string \<Rightarrow> exn + string"
  trafilatura_extract :: "string \<Rightarrow> exn + string option"
  beautiful_soup :: "string \<Rightarrow> exn + element"
  float_of_str :: "string \<Rightarrow> pyfloat option"
  float_of_int :: "int \<Rightarrow> pyfloat option"
  format_value :: "pyval \<Rightarrow> string"

fun py_float :: "env \<Rightarrow> pyval \<Rightarrow> exn + pyfloat" where
  "py_float E (PFloat f) = Inr f"
| "py_float E (PBool b) = Inr (Fin (if b then 1 else 0))"
| "py_float E (PInt i) =
     (case float_of_int E i of
        None \<Rightarrow> Inl (OtherException ''OverflowError'' ''int too large to convert to float'')
      | Some f \<Rightarrow> Inr f)"
| "py_float E (PStr s) =
     (case float_of_str E s of
        None \<Rightarrow> Inl (OtherException ''ValueError'' ''could not convert string to float'')
      | Some f \<Rightarrow> Inr f)"
| "py_float E v = Inl (OtherException ''TypeError'' ''float() argument must be a string or a real number'')"

definition after :: "exn + 'a \<Rightarrow> ('a \<Rightarrow> exn + 'b) \<Rightarrow> exn + 'b" where
  "after r f = (case r of Inl e \<Rightarrow> Inl e | Inr x \<Rightarrow> f x)"

definition with_events :: "event list \<Rightarrow> 'a action \<Rightarrow> 'a action" where
  "with_events t m = (case m of (r, t') \<Rightarrow> (r, t @ t'))"

definition no_group :: "rx \<Rightarrow> pattern" where
  "no_group r = \<lparr> before_group = r, group = Eps, after_group = Eps \<rparr>"

section \<open>Platform detector\<close>

definition is_shopify_store :: "element \<Rightarrow> string \<Rightarrow> bool" where
  "is_shopify_store soup html_content =
     (list_ex (\<lambda>indicator. contains indicator html_content)
        [''Shopify.theme'', ''shopify-section'', ''cdn.shopify.com'', ''myshopify.com'']
      \<or> find soup (\<lambda>e. is_named [''meta''] e \<and> attr_is ''name'' ''shopify-checkout-api-token'' e)
          \<noteq> None)"

section \<open>Store name\<close>

text \<open>
  The suffix pattern \<^verbatim>\<open>\s*[-|]\s*(Shop|Store|Online|eCommerce).*$\<close> with
  \<open>re.IGNORECASE\<close>. The class of the source has a third character, the en dash
  U+2013, which is not below 256 and so cannot occur in a title of the model.
\<close>

definition suffix_pattern :: pattern where
  "suffix_pattern =
     \<lparr> before_group =
         Cat (Rep 0 is_space) (Cat (Cls (\<lambda>c. c = CHR ''-'' \<or> c = CHR ''|'')) (Rep 0 is_space)),
       group =
         Alt (chars True ''Shop'') (Alt (chars True ''Store'')
           (Alt (chars True ''Online'') (chars True ''eCommerce''))),
       after_group = Cat (Rep 0 (\<lambda>c. c \<noteq> CHR 0x0A)) Eos \<rparr>"

definition domain_name :: "string \<Rightarrow> string" where
  "domain_name domain =
     title (replace (replace (replace domain ''www.'' []) ''.com'' []) ''.myshopify.com'' [])"

definition extract_store_name :: "env \<Rightarrow> element \<Rightarrow> string \<Rightarrow> exn + string" where
  "extract_store_name E soup website_url =
     (let title_tag = find soup (is_named [''title'']);
          title = (case title_tag of
                     None \<Rightarrow> []
                   | Some t \<Rightarrow> re_sub_empty suffix_pattern (strip (get_text t)))
      in if title_tag \<noteq> None \<and> title \<noteq> [] then Inr title
         else
           (let site_name =
                  find soup (\<lambda>e. is_named [''meta''] e \<and> attr_is ''property'' ''og:site_name'' e);
                site_content = (case site_name of None \<Rightarrow> None | Some m \<Rightarrow> attr m ''content'')
            in if site_name \<noteq> None \<and> site_content \<noteq> None \<and> site_content \<noteq> Some []
               then Inr (strip (the site_content))
               else
                 (let logo = find soup (\<lambda>e. is_named [''img''] e \<and> has_attr ''alt'' e);
                      alt = (case logo of None \<Rightarrow> None | Some i \<Rightarrow> attr i ''alt'');
                      alt_text = (case alt of None \<Rightarrow> [] | Some a \<Rightarrow> strip a)
                  in if logo \<noteq> None \<and> alt \<noteq> None \<and> alt \<noteq> Some []
                        \<and> alt_text \<noteq> [] \<and> lower alt_text \<notin> set [''logo'', ''image'']
                     then Inr alt_text
                     else after (urlparse_netloc E website_url)
                            (\<lambda>domain. Inr (domain_name domain)))))"

section \<open>Catalog: the price range of a product\<close>

text \<open>
  The list comprehension of \<open>_extract_price_range\<close>, left to right: a variant whose
  price is falsy is skipped, the price of every other variant goes through
  \<open>float\<close>, and the first exception ends the comprehension.
\<close>

fun variant_prices :: "env \<Rightarrow> pyval list \<Rightarrow> exn + pyfloat list" where
  "variant_prices E [] = Inr []"
| "variant_prices E (variant # variants) =
     (case py_get variant ''price'' PNone of
        Inl e \<Rightarrow> Inl e
      | Inr p \<Rightarrow>
          if truthy p then
            (case py_get variant ''price'' (PInt 0) of
               Inl e \<Rightarrow> Inl e
             | Inr q \<Rightarrow>
                 (case py_float E q of
                    Inl e \<Rightarrow> Inl e
                  | Inr f \<Rightarrow>
                      (case variant_prices E variants of
                         Inl e \<Rightarrow> Inl e
                       | Inr fs \<Rightarrow> Inr (f # fs))))
          else variant_prices E variants)"

definition extract_price_range :: "env \<Rightarrow> pyval \<Rightarrow> exn + (string \<times> pyval) list" where
  "extract_price_range E variants =
     (if \<not> truthy variants then Inr []
      else
        (case py_iter variants of
           Inl e \<Rightarrow> Inl e
         | Inr vs \<Rightarrow>
             (case variant_prices E vs of
                Inl e \<Rightarrow> Inl e
              | Inr prices \<Rightarrow>
                  if prices \<noteq> [] then
                    Inr [(''min_price'', PFloat (py_min prices)),
                         (''max_price'', PFloat (py_max prices))]
                  else Inr [])))"


section \<open>Catalog: the product feed\<close>

definition tags_of :: "pyval \<Rightarrow> exn + pyval" where
  "tags_of product =
     after (py_get product ''tags'' PNone) (\<lambda>t.
       if truthy t then
         after (py_get product ''tags'' (PStr [])) (\<lambda>s.
           case s of
             PStr str \<Rightarrow> Inr (PList (map PStr (split CHR '','' str)))
           | _ \<Rightarrow> Inl (OtherException ''AttributeError'' ''object has no attribute split''))
       else Inr (PList []))"

text \<open>\<open>any(variant.get('available', False) for variant in ...)\<close> stops at the first
  truthy value.\<close>

fun any_available :: "pyval list \<Rightarrow> exn + bool" where
  "any_available [] = Inr False"
| "any_available (variant # variants) =
     after (py_get variant ''available'' (PBool False)) (\<lambda>a.
       if truthy a then Inr True else any_available variants)"

fun image_srcs :: "pyval list \<Rightarrow> exn + pyval list" where
  "image_srcs [] = Inr []"
| "image_srcs (img # imgs) =
     after (py_get img ''src'' PNone) (\<lambda>src.
       after (image_srcs imgs) (\<lambda>srcs. Inr (src # srcs)))"

text \<open>The dict display of a product: its entries are evaluated in the order written.\<close>

definition catalog_product :: "env \<Rightarrow> string \<Rightarrow> pyval \<Rightarrow> exn + pyval" where
  "catalog_product E website_url product =
     after (py_get product ''id'' PNone) (\<lambda>pid.
     after (py_get product ''title'' PNone) (\<lambda>ptitle.
     after (py_get product ''handle'' PNone) (\<lambda>handle.
     after (py_get product ''vendor'' PNone) (\<lambda>vendor.
     after (py_get product ''product_type'' PNone) (\<lambda>product_type.
     after (tags_of product) (\<lambda>tags.
     after (py_get product ''variants'' (PList [])) (\<lambda>variants.
     after (extract_price_range E variants) (\<lambda>price_range.
     after (py_get product ''variants'' (PList [])) (\<lambda>variants2.
     after (py_iter variants2) (\<lambda>vs.
     after (any_available vs) (\<lambda>available.
     after (py_get product ''images'' (PList [])) (\<lambda>images.
     after (py_iter images) (\<lambda>imgs.
     after (image_srcs imgs) (\<lambda>srcs.
     after (py_get product ''handle'' PNone) (\<lambda>handle2.
     after (urljoin E website_url (''/products/'' @ format_value E handle2)) (\<lambda>url.
       Inr (PDict
         [(''id'', pid), (''title'', ptitle), (''handle'', handle), (''vendor'', vendor),
          (''product_type'', product_type), (''tags'', tags),
          (''price_range'', PDict price_range), (''available'', PBool available),
          (''images'', PList srcs), (''url'', PStr url)])))))))))))))))))"

fun products_loop :: "env \<Rightarrow> string \<Rightarrow> pyval list \<Rightarrow> exn + pyval list" where
  "products_loop E website_url [] = Inr []"
| "products_loop E website_url (product # products) =
     after (catalog_product E website_url product) (\<lambda>info.
       after (products_loop E website_url products) (\<lambda>infos. Inr (info # infos)))"

text \<open>\<open>_scrape_products\<close> never raises: the handler logs and the empty list is
  returned.\<close>

definition scrape_products :: "env \<Rightarrow> string \<Rightarrow> pyval list \<times> event list" where
  "scrape_products E website_url =
     (case urljoin E website_url ''/products.json'' of
        Inl e \<Rightarrow> ([], [Log Error (''Error scraping products: '' @ exn_str e)])
      | Inr products_url \<Rightarrow>
          (case session_get E products_url of
             Inl e \<Rightarrow>
               ([], [HttpGet products_url, Log Error (''Error scraping products: '' @ exn_str e)])
           | Inr response \<Rightarrow>
               if status_code response = 200 then
                 (case after (json response) (\<lambda>data.
                         after (py_get data ''products'' (PList [])) (\<lambda>ps.
                           after (py_iter ps) (products_loop E website_url))) of
                    Inl e \<Rightarrow>
                      ([], [HttpGet products_url,
                            Log Error (''Error scraping products: '' @ exn_str e)])
                  | Inr products \<Rightarrow>
                      (products,
                       [HttpGet products_url,
                        Log Info (''Found '' @ str_of_nat (length products) @ '' products'')]))
               else ([], [HttpGet products_url])))"

section \<open>Hero products\<close>

definition products_pattern :: pattern where
  "products_pattern = no_group (chars False ''/products/'')"

definition price_pattern :: pattern where
  "price_pattern = no_group (chars True ''price'')"

text \<open>The dict of one link, once its URL is joined.\<close>

definition hero_product_info :: "string \<Rightarrow> element \<Rightarrow> (string \<times> pyval) list" where
  "hero_product_info url link =
     (let product_info =
            [(''title'', PStr []), (''url'', PStr url), (''image'', PStr []),
             (''price'', PStr [])];
          title_text = strip (get_text link);
          product_info =
            (if title_text \<noteq> [] then AList.update ''title'' (PStr title_text) product_info
             else product_info);
          img = find link (is_named [''img'']);
          src = (case img of None \<Rightarrow> None | Some i \<Rightarrow> attr i ''src'');
          product_info =
            (if img \<noteq> None \<and> src \<noteq> None \<and> src \<noteq> Some []
             then AList.update ''image'' (PStr (the src)) product_info
             else product_info);
          price_elem = find link (class_matches price_pattern);
          product_info =
            (case price_elem of
               None \<Rightarrow> product_info
             | Some pe \<Rightarrow> AList.update ''price'' (PStr (strip (get_text pe))) product_info)
      in product_info)"

definition has_title_or_image :: "(string \<times> pyval) list \<Rightarrow> bool" where
  "has_title_or_image product_info =
     ((case map_of product_info ''title'' of None \<Rightarrow> False | Some v \<Rightarrow> truthy v)
      \<or> (case map_of product_info ''image'' of None \<Rightarrow> False | Some v \<Rightarrow> truthy v))"

text \<open>The loop over the links: the hrefs seen so far and the list built so far. An
  exception ends the loop and leaves the list as it is.\<close>

fun hero_products_loop ::
  "env \<Rightarrow> string \<Rightarrow> element list \<Rightarrow> string list \<Rightarrow> pyval list \<Rightarrow> exn option \<times> pyval list" where
  "hero_products_loop E website_url [] seen_products hero_products = (None, hero_products)"
| "hero_products_loop E website_url (link # links) seen_products hero_products =
     (case attr link ''href'' of
        None \<Rightarrow> hero_products_loop E website_url links seen_products hero_products
      | Some href \<Rightarrow>
          if href \<noteq> [] \<and> href \<notin> set seen_products then
            (case urljoin E website_url href of
               Inl e \<Rightarrow> (Some e, hero_products)
             | Inr url \<Rightarrow>
                 (let product_info = hero_product_info url link
                  in hero_products_loop E website_url links (href # seen_products)
                       (if has_title_or_image product_info
                        then hero_products @ [PDict product_info]
                        else hero_products)))
          else hero_products_loop E website_url links seen_products hero_products)"

definition product_links :: "element \<Rightarrow> element list" where
  "product_links soup =
     find_all soup (\<lambda>e. is_named [''a''] e \<and> attr_matches ''href'' products_pattern e)"

definition scrape_hero_products :: "env \<Rightarrow> element \<Rightarrow> string \<Rightarrow> pyval list \<times> event list" where
  "scrape_hero_products E soup website_url =
     (case hero_products_loop E website_url (take 6 (product_links soup)) [] [] of
        (None, hero_products) \<Rightarrow>
          (hero_products,
           [Log Info (''Found '' @ str_of_nat (length hero_products) @ '' hero products'')])
      | (Some e, hero_products) \<Rightarrow>
          (hero_products, [Log Error (''Error scraping hero products: '' @ exn_str e)]))"

section \<open>Path probing\<close>

text \<open>
  \<open>_scrape_policy_page\<close>, \<open>_scrape_faqs\<close>, \<open>_scrape_contact_page\<close> and
  \<open>_scrape_brand_context\<close> are the same loop over their paths: join the path, get the
  page, and on status 200 hand the response to the page's own code, which returns
  the result of the function or lets the loop go on. The handler of the loop logs the
  exception with the variable \<open>url\<close> and continues; when \<open>urljoin\<close> raises in the first
  round \<open>url\<close> is not bound yet, and the handler itself raises. \<open>url_var\<close> is the
  binding of \<open>url\<close>.
\<close>

fun probe_paths ::
  "env \<Rightarrow> string \<Rightarrow> (string \<Rightarrow> exn \<Rightarrow> string)
     \<Rightarrow> (string \<Rightarrow> response \<Rightarrow> exn + ('a \<times> event list) option)
     \<Rightarrow> 'a \<Rightarrow> string option \<Rightarrow> string list \<Rightarrow> 'a action" where
  "probe_paths E website_url message page empty_result url_var [] = (Inr empty_result, [])"
| "probe_paths E website_url message page empty_result url_var (path # paths) =
     (case urljoin E website_url (''/'' @ path) of
        Inl e \<Rightarrow>
          (case url_var of
             None \<Rightarrow>
               (Inl (OtherException ''UnboundLocalError''
                       ''cannot access local variable url''), [])
           | Some u \<Rightarrow>
               with_events [Log Debug (message u e)]
                 (probe_paths E website_url message page empty_result url_var paths))
      | Inr url \<Rightarrow>
          (case session_get E url of
             Inl e \<Rightarrow>
               with_events [HttpGet url, Log Debug (message url e)]
                 (probe_paths E website_url message page empty_result (Some url) paths)
           | Inr response \<Rightarrow>
               if status_code response = 200 then
                 (case page url response of
                    Inl e \<Rightarrow>
                      with_events [HttpGet url, Log Debug (message url e)]
                        (probe_paths E website_url message page empty_result (Some url) paths)
                  | Inr (Some (x, t)) \<Rightarrow> (Inr x, HttpGet url # t)
                  | Inr None \<Rightarrow>
                      with_events [HttpGet url]
                        (probe_paths E website_url message page empty_result (Some url) paths))
               else
                 with_events [HttpGet url]
                   (probe_paths E website_url message page empty_result (Some url) paths)))"

section \<open>Policy pages and brand context\<close>

definition long_text_page ::
  "env \<Rightarrow> string \<Rightarrow> string \<Rightarrow> response \<Rightarrow> exn + (string \<times> event list) option" where
  "long_text_page E found url response =
     after (trafilatura_extract E (content response)) (\<lambda>text_content.
       case text_content of
         None \<Rightarrow> Inr None
       | Some t \<Rightarrow>
           if t \<noteq> [] \<and> length (strip t) > 100
           then Inr (Some (strip t, [Log Info (found @ url)]))
           else Inr None)"

definition scrape_policy_page :: "env \<Rightarrow> string \<Rightarrow> string list \<Rightarrow> string action" where
  "scrape_policy_page E website_url possible_paths =
     probe_paths E website_url
       (\<lambda>url e. ''Could not access '' @ url @ '': '' @ exn_str e)
       (long_text_page E ''Found policy content at: '') [] None possible_paths"

definition scrape_privacy_policy :: "env \<Rightarrow> string \<Rightarrow> string action" where
  "scrape_privacy_policy E website_url =
     scrape_policy_page E website_url [''privacy'', ''privacy-policy'', ''policies/privacy-policy'']"

definition scrape_return_policy :: "env \<Rightarrow> string \<Rightarrow> string action" where
  "scrape_return_policy E website_url =
     scrape_policy_page E website_url
       [''return'', ''refund'', ''returns'', ''refunds'', ''shipping-returns'',
        ''policies/refund-policy'']"

definition scrape_brand_context :: "env \<Rightarrow> string \<Rightarrow> string action" where
  "scrape_brand_context E website_url =
     probe_paths E website_url
       (\<lambda>url e. ''Could not access about page at '' @ url @ '': '' @ exn_str e)
       (long_text_page E ''Found brand context at: '') [] None
       [''about'', ''about-us'', ''pages/about'', ''pages/about-us'', ''our-story'',
        ''pages/our-story'']"

section \<open>FAQs\<close>

definition faq_pattern :: pattern where
  "faq_pattern =
     no_group (Alt (chars True ''faq'') (Alt (chars True ''question'') (chars True ''accordion'')))"

text \<open>The body of the loop over the questions of a section: the FAQ a heading gives,
  if it gives one.\<close>

definition faq_of_question :: "located \<Rightarrow> pyval option" where
  "faq_of_question q =
     (let question_text = strip (get_text (el q))
      in if question_text \<noteq> [] \<and> CHR ''?'' \<in> set question_text then
           (let answer_elem = find_next_sibling q [''p'', ''div'', ''dd''];
                answer_text = (case answer_elem of None \<Rightarrow> [] | Some a \<Rightarrow> strip (get_text a))
            in if answer_text \<noteq> []
               then Some (PDict [(''question'', PStr question_text),
                                 (''answer'', PStr answer_text)])
               else None)
         else None)"

definition faq_sections :: "element \<Rightarrow> element list" where
  "faq_sections soup =
     find_all soup (\<lambda>e. is_named [''div'', ''section''] e \<and> class_matches faq_pattern e)"

definition questions :: "element \<Rightarrow> located list" where
  "questions section =
     find_all_located section
       (is_named [''h1'', ''h2'', ''h3'', ''h4'', ''h5'', ''h6'', ''dt''])"

definition faqs_of_soup :: "element \<Rightarrow> pyval list" where
  "faqs_of_soup soup =
     concat (map (\<lambda>section. List.map_filter faq_of_question (questions section))
               (faq_sections soup))"

definition faq_page :: "env \<Rightarrow> string \<Rightarrow> response \<Rightarrow> exn + (pyval list \<times> event list) option" where
  "faq_page E url response =
     after (beautiful_soup E (content response)) (\<lambda>soup.
       let faqs = faqs_of_soup soup
       in if faqs \<noteq> []
          then Inr (Some (faqs,
                 [Log Info (''Found '' @ str_of_nat (length faqs) @ '' FAQs at: '' @ url)]))
          else Inr None)"

definition scrape_faqs :: "env \<Rightarrow> string \<Rightarrow> pyval list action" where
  "scrape_faqs E website_url =
     probe_paths E website_url
       (\<lambda>url e. ''Could not access FAQ at '' @ url @ '': '' @ exn_str e)
       (faq_page E) [] None [''faq'', ''faqs'', ''help'', ''support'', ''pages/faq'']"

section \<open>Social handles\<close>

text \<open>The patterns \<^verbatim>\<open>host/([^/\s"']+)\<close> and \<^verbatim>\<open>@([a-zA-Z0-9_.]+)\<close>, searched with
  \<open>re.IGNORECASE\<close>.\<close>

definition handle_after :: "string \<Rightarrow> pattern" where
  "handle_after host =
     \<lparr> before_group = chars True host,
       group = Rep 1 (\<lambda>c. \<not> (c = CHR ''/'' \<or> is_space c \<or> c = CHR 0x22 \<or> c = CHR 0x27)),
       after_group = Eps \<rparr>"

definition at_handle :: pattern where
  "at_handle =
     \<lparr> before_group = chars True ''@'',
       group = Rep 1 (\<lambda>c. is_ascii_letter c \<or> is_digit c \<or> c = CHR ''_'' \<or> c = CHR ''.''),
       after_group = Eps \<rparr>"

definition social_patterns :: "(string \<times> pattern list) list" where
  "social_patterns =
     [(''instagram'', [handle_after ''instagram.com/'', at_handle]),
      (''facebook'', [handle_after ''facebook.com/'']),
      (''twitter'', [handle_after ''twitter.com/'', handle_after ''x.com/'']),
      (''tiktok'', [handle_after ''tiktok.com/@'']),
      (''youtube'', [handle_after ''youtube.com/'']),
      (''linkedin'', [handle_after ''linkedin.com/''])]"

text \<open>The inner loop over the links: the first link whose href the pattern matches.\<close>

fun first_link_match :: "pattern \<Rightarrow> element list \<Rightarrow> (match \<times> string) option" where
  "first_link_match pat [] = None"
| "first_link_match pat (link # links) =
     (let href = (case attr link ''href'' of None \<Rightarrow> [] | Some h \<Rightarrow> h)
      in case re_search pat href of
           Some m \<Rightarrow> Some (m, href)
         | None \<Rightarrow> first_link_match pat links)"

text \<open>One round of the loop over the patterns of a platform.\<close>

definition search_pattern ::
  "string \<Rightarrow> element list \<Rightarrow> string \<Rightarrow> pattern \<Rightarrow> (string \<times> pyval) list
     \<Rightarrow> (string \<times> pyval) list" where
  "search_pattern platform links page_text pat social_handles =
     (let social_handles =
            (case first_link_match pat links of
               Some (m, href) \<Rightarrow>
                 AList.update platform
                   (PDict [(''handle'', PStr (group1 m)), (''url'', PStr href)]) social_handles
             | None \<Rightarrow> social_handles)
      in if platform \<notin> fst ` set social_handles then
           (case re_search pat page_text of
              Some m \<Rightarrow>
                AList.update platform
                  (PDict [(''handle'', PStr (group1 m)),
                          (''url'', PStr (''https://'' @ platform @ ''.com/'' @ group1 m))])
                  social_handles
            | None \<Rightarrow> social_handles)
         else social_handles)"

definition links_with_href :: "element \<Rightarrow> element list" where
  "links_with_href e = find_all e (\<lambda>a. is_named [''a''] a \<and> has_attr ''href'' a)"

definition extract_social_handles :: "element \<Rightarrow> (string \<times> pyval) list" where
  "extract_social_handles soup =
     (let links = links_with_href soup;
          page_text = get_text soup
      in fold (\<lambda>(platform, patterns) social_handles.
                 fold (search_pattern platform links page_text) patterns social_handles)
           social_patterns [])"

section \<open>Contact details\<close>

text \<open>
  The email pattern \<^verbatim>\<open>\b[A-Za-z0-9._%+-]+@[A-Za-z0-9.-]+\.[A-Z|a-z]{2,}\b\<close> and the
  phone pattern \<^verbatim>\<open>(\+?1?[-.\s]?)?\(?\d{3}\)?[-.\s]?\d{3}[-.\s]?\d{4}\<close>, which has
  a group.
\<close>

definition email_pattern :: pattern where
  "email_pattern =
     no_group
       (Cat Wb
       (Cat (Rep 1 (\<lambda>c. is_ascii_letter c \<or> is_digit c \<or> c \<in> set ''._%+-''))
       (Cat (Cls (\<lambda>c. c = CHR ''@''))
       (Cat (Rep 1 (\<lambda>c. is_ascii_letter c \<or> is_digit c \<or> c \<in> set ''.-''))
       (Cat (Cls (\<lambda>c. c = CHR ''.''))
       (Cat (Rep 2 (\<lambda>c. is_ascii_letter c \<or> c = CHR ''|'')) Wb))))))"

definition digits3 :: rx where
  "digits3 = Cat (Cls is_digit) (Cat (Cls is_digit) (Cls is_digit))"

definition separator :: rx where
  "separator = Opt (Cls (\<lambda>c. c = CHR ''-'' \<or> c = CHR ''.'' \<or> is_space c))"

definition phone_pattern :: pattern where
  "phone_pattern =
     \<lparr> before_group = Eps,
       group =
         Opt (Cat (Opt (Cls (\<lambda>c. c = CHR ''+'')))
             (Cat (Opt (Cls (\<lambda>c. c = CHR ''1''))) separator)),
       after_group =
         Cat (Opt (Cls (\<lambda>c. c = CHR ''('')))
        (Cat digits3
        (Cat (Opt (Cls (\<lambda>c. c = CHR '')'')))
        (Cat separator
        (Cat digits3
        (Cat separator
        (Cat digits3 (Cls is_digit))))))) \<rparr>"

text \<open>\<open>list(set(xs))\<close>: the distinct elements, in an order Python does not fix.\<close>

definition list_of_set :: "string list \<Rightarrow> pyval" where
  "list_of_set xs = PList (map PStr (remdups xs))"

definition contact_page ::
  "env \<Rightarrow> string \<Rightarrow> response \<Rightarrow> exn + ((string \<times> pyval) list \<times> event list) option" where
  "contact_page E url response =
     after (trafilatura_extract E (content response)) (\<lambda>text_content.
       case text_content of
         None \<Rightarrow> Inr None
       | Some t \<Rightarrow>
           if t \<noteq> [] then
             (let contact_info = [];
                  emails = re_findall False email_pattern t;
                  contact_info =
                    (if emails \<noteq> []
                     then AList.update ''contact_page_emails'' (list_of_set emails) contact_info
                     else contact_info);
                  phones = re_findall True phone_pattern t;
                  contact_info =
                    (if phones \<noteq> []
                     then AList.update ''contact_page_phones'' (list_of_set phones) contact_info
                     else contact_info)
              in Inr (Some (contact_info, [])))
           else Inr None)"

definition scrape_contact_page :: "env \<Rightarrow> string \<Rightarrow> (string \<times> pyval) list action" where
  "scrape_contact_page E website_url =
     probe_paths E website_url
       (\<lambda>url e. ''Could not access contact page at '' @ url @ '': '' @ exn_str e)
       (contact_page E) [] None
       [''contact'', ''contact-us'', ''pages/contact'', ''pages/contact-us'']"

text \<open>The loop over the address keywords: it stops at the first keyword whose string
  has a parent with more than 20 characters of text.\<close>

fun address_loop ::
  "element \<Rightarrow> string list \<Rightarrow> (string \<times> pyval) list \<Rightarrow> (string \<times> pyval) list" where
  "address_loop soup [] contact_details = contact_details"
| "address_loop soup (keyword # keywords) contact_details =
     (case find_string soup (no_group (chars True keyword)) of
        None \<Rightarrow> address_loop soup keywords contact_details
      | Some address_elem \<Rightarrow>
          (let address_text = strip (get_text (parent address_elem))
           in if length address_text > 20
              then AList.update ''address'' (PStr address_text) contact_details
              else address_loop soup keywords contact_details))"

definition extract_contact_details ::
  "env \<Rightarrow> element \<Rightarrow> string \<Rightarrow> (string \<times> pyval) list action" where
  "extract_contact_details E soup website_url =
     (let contact_details = [];
          page_text = get_text soup;
          emails = re_findall False email_pattern page_text;
          contact_emails =
            filter (\<lambda>email. \<not> list_ex (\<lambda>exclude. contains exclude (lower email))
                      [''noreply'', ''no-reply'', ''admin'', ''webmaster'']) emails;
          contact_details =
            (if emails \<noteq> [] \<and> contact_emails \<noteq> []
             then AList.update ''emails'' (list_of_set contact_emails) contact_details
             else contact_details);
          phones = re_findall True phone_pattern page_text;
          contact_details =
            (if phones \<noteq> []
             then AList.update ''phones'' (list_of_set phones) contact_details
             else contact_details);
          contact_details =
            address_loop soup [''address'', ''location'', ''office'', ''store location'']
              contact_details
      in and_then (scrape_contact_page E website_url) (\<lambda>contact_page_info.
           (Inr (if contact_page_info \<noteq> []
                 then fold (\<lambda>kv d. AList.update (fst kv) (snd kv) d) contact_page_info
                        contact_details
                 else contact_details), [])))"

section \<open>Important links\<close>

definition important_patterns :: "(string \<times> string list) list" where
  "important_patterns =
     [(''order_tracking'', [''track'', ''tracking'', ''order-status'', ''track-order'']),
      (''blog'', [''blog'', ''news'', ''articles'']),
      (''support'', [''support'', ''help'', ''customer-service'']),
      (''shipping'', [''shipping'', ''delivery'']),
      (''size_guide'', [''size-guide'', ''sizing'', ''size-chart'']),
      (''gift_cards'', [''gift-card'', ''gift-cards'']),
      (''wholesale'', [''wholesale'', ''trade'', ''bulk''])]"

definition nav_links :: "element \<Rightarrow> element list" where
  "nav_links soup =
     concat (map links_with_href (find_all soup (is_named [''nav'', ''header'', ''footer''])))
       @ links_with_href soup"

definition link_matches :: "string list \<Rightarrow> element \<Rightarrow> bool" where
  "link_matches keywords link =
     (let href = lower (case attr link ''href'' of None \<Rightarrow> [] | Some h \<Rightarrow> h);
          text = lower (strip (get_text link))
      in list_ex (\<lambda>keyword. contains keyword href \<or> contains keyword text) keywords)"

text \<open>The loop over the categories: each takes the first link that matches one of its
  keywords, and joins its href.\<close>

fun important_links_loop ::
  "env \<Rightarrow> string \<Rightarrow> element list \<Rightarrow> (string \<times> string list) list \<Rightarrow> exn + pyval list" where
  "important_links_loop E website_url links [] = Inr []"
| "important_links_loop E website_url links ((category, keywords) # rest) =
     (case List.find (link_matches keywords) links of
        None \<Rightarrow> important_links_loop E website_url links rest
      | Some link \<Rightarrow>
          after (urljoin E website_url (case attr link ''href'' of None \<Rightarrow> [] | Some h \<Rightarrow> h))
            (\<lambda>full_url.
               after (important_links_loop E website_url links rest) (\<lambda>important_links.
                 Inr (PDict [(''category'', PStr category),
                             (''title'', PStr (strip (get_text link))),
                             (''url'', PStr full_url)] # important_links))))"

fun url_of :: "pyval \<Rightarrow> pyval" where
  "url_of (PDict kvs) = (case map_of kvs ''url'' of None \<Rightarrow> PNone | Some u \<Rightarrow> u)"
| "url_of v = PNone"

fun unique_links :: "pyval list \<Rightarrow> pyval list \<Rightarrow> pyval list" where
  "unique_links seen_urls [] = []"
| "unique_links seen_urls (link # links) =
     (if url_of link \<notin> set seen_urls
      then link # unique_links (url_of link # seen_urls) links
      else unique_links seen_urls links)"

definition extract_important_links :: "env \<Rightarrow> element \<Rightarrow> string \<Rightarrow> exn + pyval list" where
  "extract_important_links E soup website_url =
     after (important_links_loop E website_url (nav_links soup) important_patterns)
       (\<lambda>important_links. Inr (unique_links [] important_links))"

section \<open>Orchestrator\<close>

definition normalize_url :: "string \<Rightarrow> string" where
  "normalize_url website_url =
     (if \<not> (startswith website_url ''http://'' \<or> startswith website_url ''https://'')
      then ''https://'' @ website_url else website_url)"

text \<open>The body of the \<open>try\<close> of \<open>scrape_store\<close>; \<open>None\<close> is the value Python's
  \<open>None\<close>, returned when the homepage does not answer 200.\<close>

definition scrape_store_try :: "env \<Rightarrow> string \<Rightarrow> (string \<times> pyval) list option action" where
  "scrape_store_try E website_url =
     and_then (session_get E website_url, [HttpGet website_url]) (\<lambda>response.
       if status_code response \<noteq> 200 then
         (Inr None,
          [Log Error (''Website not accessible: '' @ website_url @ '' (Status: ''
                        @ str_of_int (status_code response) @ '')'')])
       else
         and_then (pure_step (beautiful_soup E (content response))) (\<lambda>soup.
         and_then (Inr (),
                   if \<not> is_shopify_store soup (resp_text response)
                   then [Log Warning (''Website may not be a Shopify store: '' @ website_url)]
                   else []) (\<lambda>u.
         and_then (pure_step (extract_store_name E soup website_url)) (\<lambda>store_name.
         let insights =
               [(''store_name'', PStr store_name),
                (''website_url'', PStr website_url),
                (''products'', PList []),
                (''hero_products'', PList []),
                (''privacy_policy'', PStr []),
                (''return_policy'', PStr []),
                (''faqs'', PList []),
                (''social_handles'', PDict []),
                (''contact_details'', PDict []),
                (''brand_context'', PStr []),
                (''important_links'', PList [])]
         in
         and_then (case scrape_products E website_url of (r, t) \<Rightarrow> (Inr r, t)) (\<lambda>products.
         let insights = AList.update ''products'' (PList products) insights in
         and_then (case scrape_hero_products E soup website_url of (r, t) \<Rightarrow> (Inr r, t))
           (\<lambda>hero_products.
         let insights = AList.update ''hero_products'' (PList hero_products) insights in
         and_then (scrape_privacy_policy E website_url) (\<lambda>privacy_policy.
         let insights = AList.update ''privacy_policy'' (PStr privacy_policy) insights in
         and_then (scrape_return_policy E website_url) (\<lambda>return_policy.
         let insights = AList.update ''return_policy'' (PStr return_policy) insights in
         and_then (scrape_faqs E website_url) (\<lambda>faqs.
         let insights = AList.update ''faqs'' (PList faqs) insights in
         and_then (pure_step (Inr (extract_social_handles soup))) (\<lambda>social_handles.
         let insights = AList.update ''social_handles'' (PDict social_handles) insights in
         and_then (extract_contact_details E soup website_url) (\<lambda>contact_details.
         let insights = AList.update ''contact_details'' (PDict contact_details) insights in
         and_then (scrape_brand_context E website_url) (\<lambda>brand_context.
         let insights = AList.update ''brand_context'' (PStr brand_context) insights in
         and_then (pure_step (extract_important_links E soup website_url)) (\<lambda>important_links.
         let insights = AList.update ''important_links'' (PList important_links) insights in
         (Inr (Some insights), []))))))))))))))"

text \<open>\<open>scrape_store\<close>: a \<open>RequestException\<close> from anywhere in the body is logged and
  \<open>None\<close> is returned; any other exception is logged and raised again.\<close>

definition scrape_store :: "env \<Rightarrow> string \<Rightarrow> (string \<times> pyval) list option action" where
  "scrape_store E website_url0 =
     (let website_url = normalize_url website_url0
      in case scrape_store_try E website_url of
           (Inl e, t) \<Rightarrow>
             if is_request_exception e
             then (Inr None,
                   t @ [Log Error (''Network error while scraping '' @ website_url @ '': ''
                                     @ exn_str e)])
             else (Inl e,
                   t @ [Log Error (''Unexpected error while scraping '' @ website_url @ '': ''
                                     @ exn_str e)])
         | (Inr r, t) \<Rightarrow> (Inr r, t))"

section \<open>The price range in the words of the specification\<close>

text \<open>
  The price range as the specification words it: the minimum and the maximum over
  the variant prices that parse as numbers, and the empty map when there is none.
\<close>

definition spec_parsed_prices :: "env \<Rightarrow> pyval list \<Rightarrow> pyfloat list" where
  "spec_parsed_prices E vs =
     List.map_filter
       (\<lambda>v. case py_get v ''price'' PNone of
               Inl e \<Rightarrow> None
             | Inr p \<Rightarrow> (case py_float E p of Inl e \<Rightarrow> None | Inr f \<Rightarrow> Some f))
       vs"

definition price_range_of :: "pyfloat list \<Rightarrow> (string \<times> pyval) list" where
  "price_range_of fs =
     (if fs = [] then []
      else [(''min_price'', PFloat (py_min fs)), (''max_price'', PFloat (py_max fs))])"

definition spec_price_range :: "env \<Rightarrow> pyval list \<Rightarrow> (string \<times> pyval) list" where
  "spec_price_range E vs = price_range_of (spec_parsed_prices E vs)"

text \<open>The prices the code converts: those of the variants whose price is truthy.\<close>

fun is_dict :: "pyval \<Rightarrow> bool" where
  "is_dict (PDict kvs) = True"
| "is_dict v = False"

fun price_of :: "pyval \<Rightarrow> pyval" where
  "price_of (PDict kvs) = (case map_of kvs ''price'' of None \<Rightarrow> PNone | Some p \<Rightarrow> p)"
| "price_of v = PNone"

definition truthy_prices :: "pyval list \<Rightarrow> pyval list" where
  "truthy_prices vs = filter truthy (map price_of vs)"

section \<open>The links the hero product extractor chooses from\<close>







section \<open>The shape of a store profile\<close>

datatype kind = KStr | KList | KDict

fun has_kind :: "kind \<Rightarrow> pyval \<Rightarrow> bool" where
  "has_kind KStr (PStr s) = True"
| "has_kind KList (PList xs) = True"
| "has_kind KDict (PDict kvs) = True"
| "has_kind k v = False"

definition profile_fields :: "(string \<times> kind) list" where
  "profile_fields =
     [(''store_name'', KStr), (''website_url'', KStr), (''products'', KList),
      (''hero_products'', KList), (''privacy_policy'', KStr), (''return_policy'', KStr),
      (''faqs'', KList), (''social_handles'', KDict), (''contact_details'', KDict),
      (''brand_context'', KStr), (''important_links'', KList)]"

text \<open>A dict is a store profile when its items are the eleven fields, each with a
  value of its kind.\<close>

definition store_profile :: "(string \<times> pyval) list \<Rightarrow> bool" where
  "store_profile d =
     list_all2 (\<lambda>item field. fst item = fst field \<and> has_kind (snd field) (snd item))
       d profile_fields"

definition profile_or_none :: "(string \<times> pyval) list option \<Rightarrow> bool" where
  "profile_or_none r = (case r of None \<Rightarrow> True | Some d \<Rightarrow> store_profile d)"

text \<open>A step that, when it returns, returns a value with the property.\<close>

definition only_returns :: "('a \<Rightarrow> bool) \<Rightarrow> 'a action \<Rightarrow> bool" where
  "only_returns P m = (case fst m of Inl e \<Rightarrow> True | Inr x \<Rightarrow> P x)"

section \<open>A concrete environment\<close>

text \<open>
  An environment to run the model on. No page answers; \<open>urljoin\<close> on a base without
  a path appends an absolute path, keeps a URL with a scheme and raises on a
  bracket that opens a host and is not closed, as \<open>urllib.parse\<close> does; the host is
  what follows \<open>https://\<close>; \<open>float\<close> reads a string of decimal digits and converts
  an integer exactly. It agrees with the libraries on the inputs used below.
\<close>

definition digit_val :: "char \<Rightarrow> nat" where
  "digit_val c = of_char c - 48"

definition test_float_of_str :: "string \<Rightarrow> pyfloat option" where
  "test_float_of_str s =
     (if s \<noteq> [] \<and> list_all is_digit s
      then Some (Fin (of_nat (foldl (\<lambda>n c. 10 * n + digit_val c) 0 s)))
      else None)"

definition test_urljoin :: "string \<Rightarrow> string \<Rightarrow> exn + string" where
  "test_urljoin base url =
     (if contains ''//['' url \<and> CHR '']'' \<notin> set url
      then Inl (OtherException ''ValueError'' ''Invalid IPv6 URL'')
      else if startswith url ''/'' then Inr (base @ url)
      else if CHR '':'' \<in> set url then Inr url
      else Inr (base @ ''/'' @ url))"

definition test_env :: env where
  "test_env =
     \<lparr> session_get = (\<lambda>url. Inl (RequestException ''connection refused'')),
       urljoin = test_urljoin,
       urlparse_netloc = (\<lambda>url. Inr (takeWhile (\<lambda>c. c \<noteq> CHR ''/'') (drop 8 url))),
       trafilatura_extract = (\<lambda>html. Inr None),
       beautiful_soup = (\<lambda>html. Inr (Tag ''[document]'' [] [NavigableString html])),
       float_of_str = test_float_of_str,
       float_of_int = (\<lambda>i. Some (Fin (of_int i))),
       format_value = (\<lambda>v. case v of PStr s \<Rightarrow> s | _ \<Rightarrow> ''None'') \<rparr>"

text \<open>A site: the pages that answer 200 with their markup, and the documents the
  parser makes of the markup. Every other page answers 404.\<close>

definition page :: "int \<Rightarrow> string \<Rightarrow> response" where
  "page status html =
     \<lparr> status_code = status, content = html, resp_text = html,
       json = Inl (RequestException ''Expecting value'') \<rparr>"

definition site :: "(string \<times> string) list \<Rightarrow> (string \<times> element) list \<Rightarrow> env" where
  "site pages parses =
     test_env
       \<lparr> session_get :=
           (\<lambda>url. case map_of pages url of
                    Some html \<Rightarrow> Inr (page 200 html)
                  | None \<Rightarrow> Inr (page 404 [])),
         beautiful_soup :=
           (\<lambda>html. case map_of parses html of
                     Some soup \<Rightarrow> Inr soup
                   | None \<Rightarrow> Inr (Tag ''[document]'' [] [NavigableString html])) \<rparr>"

text \<open>A store whose homepage has a title, a product link, a social link, a blog link
  and a phone number.\<close>

definition shop_html :: string where
  "shop_html =
     ''<title>Acme Co - Shop Online</title><a href=/products/mug>Mug</a>''
     @ ''<a href=https://instagram.com/acmeshop>Instagram</a>''
     @ ''<a href=/blogs/news>Blog</a><p>Call 555-123-4567</p>''"

definition shop_soup :: element where
  "shop_soup =
     Tag ''[document]'' []
       [Tag ''title'' [] [NavigableString ''Acme Co - Shop Online''],
        Tag ''a'' [(''href'', ''/products/mug'')] [NavigableString ''Mug''],
        Tag ''a'' [(''href'', ''https://instagram.com/acmeshop'')] [NavigableString ''Instagram''],
        Tag ''a'' [(''href'', ''/blogs/news'')] [NavigableString ''Blog''],
        Tag ''p'' [] [NavigableString ''Call 555-123-4567'']]"

text \<open>The site \<open>https://acme.com\<close> with only its homepage.\<close>

definition acme_site :: "string \<Rightarrow> element \<Rightarrow> env" where
  "acme_site html soup = site [(''https://acme.com'', html)] [(html, soup)]"

definition shop_site :: env where
  "shop_site = acme_site shop_html shop_soup"

definition shop_insights :: "(string \<times> pyval) list" where
  "shop_insights =
     [(''store_name'', PStr ''Acme Co''),
      (''website_url'', PStr ''https://acme.com''),
      (''products'', PList []),
      (''hero_products'',
       PList [PDict [(''title'', PStr ''Mug''), (''url'', PStr ''https://acme.com/products/mug''),
                     (''image'', PStr []), (''price'', PStr [])]]),
      (''privacy_policy'', PStr []),
      (''return_policy'', PStr []),
      (''faqs'', PList []),
      (''social_handles'',
       PDict [(''instagram'',
               PDict [(''handle'', PStr ''acmeshop''),
                      (''url'', PStr ''https://instagram.com/acmeshop'')])]),
      (''contact_details'', PDict [(''phones'', PList [PStr '' ''])]),
      (''brand_context'', PStr []),
      (''important_links'',
       PList [PDict [(''category'', PStr ''blog''), (''title'', PStr ''Blog''),
                     (''url'', PStr ''https://acme.com/blogs/news'')]])]"

text \<open>A homepage with a link whose href opens a bracket in the host,
  \<^verbatim>\<open><title>Acme</title><a href=http://[blog>Blog</a>\<close>.\<close>

definition blog_html :: string where
  "blog_html = ''<title>Acme</title><a href=http://[blog>Blog</a>''"

definition blog_soup :: element where
  "blog_soup =
     Tag ''[document]'' []
       [Tag ''title'' [] [NavigableString ''Acme''],
        Tag ''a'' [(''href'', ''http://[blog'')] [NavigableString ''Blog'']]"

definition blog_site :: env where
  "blog_site = acme_site blog_html blog_soup"

text \<open>A homepage with a link to the store's Instagram account and a mail link,
  \<^verbatim>\<open><a href=https://instagram.com/acmeshop>Instagram</a><a href=mailto:hello@acme.com>Email us</a>\<close>.\<close>

definition mailto_soup :: element where
  "mailto_soup =
     Tag ''[document]'' []
       [Tag ''a'' [(''href'', ''https://instagram.com/acmeshop'')] [NavigableString ''Instagram''],
        Tag ''a'' [(''href'', ''mailto:hello@acme.com'')] [NavigableString ''Email us'']]"

text \<open>A homepage whose text is a phone number, \<^verbatim>\<open><p>555-123-4567</p>\<close>.\<close>

definition phone_soup :: element where
  "phone_soup = Tag ''[document]'' [] [Tag ''p'' [] [NavigableString ''555-123-4567'']]"

text \<open>A homepage without a title, whose site-name metadata is one space,
  \<^verbatim>\<open><meta property="og:site_name" content=" ">\<close>.\<close>

definition blank_site_name_soup :: element where
  "blank_site_name_soup =
     Tag ''[document]'' []
       [Tag ''meta'' [(''property'', ''og:site_name''), (''content'', '' '')] []]"





text \<open>A site with an FAQ page: a question with its answer, a heading without a
  question mark, and a question without an answer after it.\<close>

definition faq_html :: string where
  "faq_html =
     ''<div class=faq><h3>Do you ship?</h3><p>Yes.</p><h3>Returns</h3>''
     @ ''<p>Within 30 days</p><h3>Where are you?</h3></div>''"

definition faq_soup :: element where
  "faq_soup =
     Tag ''[document]'' []
       [Tag ''div'' [(''class'', ''faq'')]
          [Tag ''h3'' [] [NavigableString ''Do you ship?''],
           Tag ''p'' [] [NavigableString ''Yes.''],
           Tag ''h3'' [] [NavigableString ''Returns''],
           Tag ''p'' [] [NavigableString ''Within 30 days''],
           Tag ''h3'' [] [NavigableString ''Where are you?'']]]"

definition faq_site :: env where
  "faq_site = site [(''https://acme.com/faq'', faq_html)] [(faq_html, faq_soup)]"

definition shipping_faq :: pyval where
  "shipping_faq = PDict [(''question'', PStr ''Do you ship?''), (''answer'', PStr ''Yes.'')]"

text \<open>A site whose homepage answers with a given status.\<close>

definition status_site :: "int \<Rightarrow> env" where
  "status_site status = test_env \<lparr> session_get := (\<lambda>url. Inr (page status [])) \<rparr>"

section \<open>Properties of the price range\<close>

lemma variant_prices_step:
  "is_dict v \<Longrightarrow> variant_prices E (v # vs) =
     (if truthy (price_of v) then
        (case py_float E (price_of v) of
           Inl e \<Rightarrow> Inl e
         | Inr f \<Rightarrow> (case variant_prices E vs of Inl e \<Rightarrow> Inl e | Inr fs \<Rightarrow> Inr (f # fs)))
      else variant_prices E vs)"
  by (cases v) (simp_all split: option.splits)

lemma truthy_prices_Cons:
  "truthy_prices (v # vs) =
     (if truthy (price_of v) then price_of v # truthy_prices vs else truthy_prices vs)"
  by (simp add: truthy_prices_def)

lemma variant_prices_ok:
  "\<forall>v\<in>set vs. is_dict v \<Longrightarrow> \<forall>p\<in>set (truthy_prices vs). \<exists>f. py_float E p = Inr f \<Longrightarrow>
   variant_prices E vs = Inr (map (\<lambda>p. projr (py_float E p)) (truthy_prices vs))"
proof (induction vs)
  case Nil
  then show ?case by (simp add: truthy_prices_def)
next
  case (Cons v vs)
  have d: "is_dict v" using Cons.prems(1) by simp
  have ih: "variant_prices E vs = Inr (map (\<lambda>p. projr (py_float E p)) (truthy_prices vs))"
    using Cons by (simp add: truthy_prices_Cons split: if_splits)
  show ?case
  proof (cases "truthy (price_of v)")
    case True
    with Cons.prems(2) obtain f where f: "py_float E (price_of v) = Inr f"
      by (auto simp: truthy_prices_Cons)
    show ?thesis
      by (simp only: variant_prices_step[OF d] truthy_prices_Cons True if_True f ih
            sum.case list.map sum.sel)
  next
    case False
    show ?thesis
      by (simp only: variant_prices_step[OF d] truthy_prices_Cons False if_False ih)
  qed
qed

lemma variant_prices_err:
  "\<forall>v\<in>set vs. is_dict v \<Longrightarrow> \<exists>p\<in>set (truthy_prices vs). isl (py_float E p) \<Longrightarrow>
   isl (variant_prices E vs)"
proof (induction vs)
  case Nil
  then show ?case by (simp add: truthy_prices_def)
next
  case (Cons v vs)
  have d: "is_dict v" using Cons.prems(1) by simp
  show ?case
  proof (cases "truthy (price_of v) \<and> isl (py_float E (price_of v))")
    case True
    then show ?thesis
      by (simp only: variant_prices_step[OF d]) (auto split: sum.splits)
  next
    case False
    with Cons.prems(2) have "\<exists>p\<in>set (truthy_prices vs). isl (py_float E p)"
      by (auto simp: truthy_prices_Cons split: if_splits)
    with Cons have "isl (variant_prices E vs)" by simp
    then show ?thesis
      by (simp only: variant_prices_step[OF d]) (auto split: sum.splits)
  qed
qed


lemma py_lt_trans: "py_lt a b \<Longrightarrow> py_lt b c \<Longrightarrow> py_lt a c"
  by (cases a; cases b; cases c) auto

lemma py_lt_negtrans:
  "a \<noteq> NaN \<Longrightarrow> b \<noteq> NaN \<Longrightarrow> c \<noteq> NaN \<Longrightarrow> \<not> py_lt a b \<Longrightarrow> \<not> py_lt b c \<Longrightarrow> \<not> py_lt a c"
  by (cases a; cases b; cases c) auto

lemma py_lt_irrefl: "\<not> py_lt a a"
  by (cases a) auto

lemma fold_min_in: "fold (\<lambda>y best. if py_lt y best then y else best) xs x \<in> set (x # xs)"
  by (induction xs arbitrary: x) auto

lemma fold_max_in: "fold (\<lambda>y best. if py_lt best y then y else best) xs x \<in> set (x # xs)"
  by (induction xs arbitrary: x) auto

lemma fold_min_mono:
  "NaN \<notin> set (x # xs) \<Longrightarrow>
   \<not> py_lt x (fold (\<lambda>y best. if py_lt y best then y else best) xs x)"
proof (induction xs arbitrary: x)
  case Nil
  then show ?case by (simp add: py_lt_irrefl)
next
  case (Cons a xs)
  show ?case
  proof (cases "py_lt a x")
    case True
    from Cons.prems have "NaN \<notin> set (a # xs)" by auto
    from Cons.IH[OF this]
    have "\<not> py_lt a (fold (\<lambda>y best. if py_lt y best then y else best) xs a)" .
    moreover have "\<not> py_lt x a" using True py_lt_trans py_lt_irrefl by blast
    moreover have "fold (\<lambda>y best. if py_lt y best then y else best) xs a \<noteq> NaN"
      using fold_min_in[of xs a] Cons.prems by auto
    ultimately show ?thesis using True Cons.prems
      by (auto dest: py_lt_negtrans[rotated 3])
  next
    case False
    from Cons.prems have "NaN \<notin> set (x # xs)" by auto
    from Cons.IH[OF this] False show ?thesis by simp
  qed
qed

lemma fold_min_le:
  "NaN \<notin> set (x # xs) \<Longrightarrow> f \<in> set (x # xs) \<Longrightarrow>
   \<not> py_lt f (fold (\<lambda>y best. if py_lt y best then y else best) xs x)"
proof (induction xs arbitrary: x)
  case Nil
  then show ?case by (simp add: py_lt_irrefl)
next
  case (Cons a xs)
  let ?b = "if py_lt a x then a else x"
  have nn: "NaN \<notin> set (?b # xs)" using Cons.prems by auto
  have mono: "\<not> py_lt ?b (fold (\<lambda>y best. if py_lt y best then y else best) xs ?b)"
    by (rule fold_min_mono[OF nn])
  have res: "fold (\<lambda>y best. if py_lt y best then y else best) xs ?b \<noteq> NaN"
    using fold_min_in[of xs ?b] nn by metis
  consider "f \<in> set (?b # xs)" | "f = x" "py_lt a x" | "f = a" "\<not> py_lt a x"
    using Cons.prems(2) by (cases "py_lt a x") auto
  then show ?case
  proof cases
    case 1
    from Cons.IH[OF nn 1] show ?thesis by simp
  next
    case 2
    have "\<not> py_lt x a" using 2 py_lt_trans py_lt_irrefl by blast
    with mono res 2 Cons.prems show ?thesis
      using py_lt_negtrans[of x a "fold (\<lambda>y best. if py_lt y best then y else best) xs a"]
      by auto
  next
    case 3
    with mono res Cons.prems show ?thesis
      using py_lt_negtrans[of a x "fold (\<lambda>y best. if py_lt y best then y else best) xs x"]
      by auto
  qed
qed

lemma fold_max_mono:
  "NaN \<notin> set (x # xs) \<Longrightarrow>
   \<not> py_lt (fold (\<lambda>y best. if py_lt best y then y else best) xs x) x"
proof (induction xs arbitrary: x)
  case Nil
  then show ?case by (simp add: py_lt_irrefl)
next
  case (Cons a xs)
  show ?case
  proof (cases "py_lt x a")
    case True
    from Cons.prems have "NaN \<notin> set (a # xs)" by auto
    from Cons.IH[OF this]
    have "\<not> py_lt (fold (\<lambda>y best. if py_lt best y then y else best) xs a) a" .
    moreover have "\<not> py_lt a x" using True py_lt_trans py_lt_irrefl by blast
    moreover have "fold (\<lambda>y best. if py_lt best y then y else best) xs a \<noteq> NaN"
      using fold_max_in[of xs a] Cons.prems by auto
    ultimately show ?thesis using True Cons.prems
      using py_lt_negtrans[of "fold (\<lambda>y best. if py_lt best y then y else best) xs a" a x]
      by auto
  next
    case False
    from Cons.prems have "NaN \<notin> set (x # xs)" by auto
    from Cons.IH[OF this] False show ?thesis by simp
  qed
qed

lemma fold_max_ge:
  "NaN \<notin> set (x # xs) \<Longrightarrow> f \<in> set (x # xs) \<Longrightarrow>
   \<not> py_lt (fold (\<lambda>y best. if py_lt best y then y else best) xs x) f"
proof (induction xs arbitrary: x)
  case Nil
  then show ?case by (simp add: py_lt_irrefl)
next
  case (Cons a xs)
  let ?b = "if py_lt x a then a else x"
  have nn: "NaN \<notin> set (?b # xs)" using Cons.prems by auto
  have mono: "\<not> py_lt (fold (\<lambda>y best. if py_lt best y then y else best) xs ?b) ?b"
    by (rule fold_max_mono[OF nn])
  have res: "fold (\<lambda>y best. if py_lt best y then y else best) xs ?b \<noteq> NaN"
    using fold_max_in[of xs ?b] nn by metis
  consider "f \<in> set (?b # xs)" | "f = x" "py_lt x a" | "f = a" "\<not> py_lt x a"
    using Cons.prems(2) by (cases "py_lt x a") auto
  then show ?case
  proof cases
    case 1
    from Cons.IH[OF nn 1] show ?thesis by simp
  next
    case 2
    have "\<not> py_lt a x" using 2 py_lt_trans py_lt_irrefl by blast
    with mono res 2 Cons.prems show ?thesis
      using py_lt_negtrans[of "fold (\<lambda>y best. if py_lt best y then y else best) xs a" a x]
      by auto
  next
    case 3
    with mono res Cons.prems show ?thesis
      using py_lt_negtrans[of "fold (\<lambda>y best. if py_lt best y then y else best) xs x" x a]
      by auto
  qed
qed

lemma py_min_least:
  "fs \<noteq> [] \<Longrightarrow> NaN \<notin> set fs \<Longrightarrow>
   py_min fs \<in> set fs \<and> (\<forall>f\<in>set fs. \<not> py_lt f (py_min fs))"
  using fold_min_in fold_min_le by (cases fs) (simp, simp only: py_min.simps, blast)

lemma py_max_greatest:
  "fs \<noteq> [] \<Longrightarrow> NaN \<notin> set fs \<Longrightarrow>
   py_max fs \<in> set fs \<and> (\<forall>f\<in>set fs. \<not> py_lt (py_max fs) f)"
  using fold_max_in fold_max_ge by (cases fs) (simp, simp only: py_max.simps, blast)

text \<open>
  C9, as the specification states it, fails: a price that does not parse is not left
  out of the range, the conversion raises. With the variants priced \<open>"abc"\<close> and
  \<open>10\<close> the specification's range is \<open>{min_price: 10, max_price: 10}\<close> and the code
  raises \<open>ValueError\<close>.
\<close>

theorem price_range_unparsable_counterexample:
  "extract_price_range test_env
       (PList [PDict [(''price'', PStr ''abc'')], PDict [(''price'', PInt 10)]])
     = Inl (OtherException ''ValueError'' ''could not convert string to float'')
   \<and> spec_price_range test_env [PDict [(''price'', PStr ''abc'')], PDict [(''price'', PInt 10)]]
     = [(''min_price'', PFloat (Fin 10)), (''max_price'', PFloat (Fin 10))]"
  by (simp add: extract_price_range_def spec_price_range_def spec_parsed_prices_def
        price_range_of_def test_env_def test_float_of_str_def is_digit_def)

text \<open>
  C9, amended: for a list of variant dicts, the prices taken are those of the variants
  whose price is truthy (present and not null, zero or empty). When each of them
  converts with \<open>float\<close>, the price range is \<open>min_price\<close> and \<open>max_price\<close> over the
  converted prices, and the empty map when no variant has a truthy price; when one of
  them does not convert, the extractor raises. Over prices without NaN the built-in
  \<open>min\<close> and \<open>max\<close> return an element of the list that none is below, respectively
  above.
\<close>

theorem price_range_over_truthy_prices:
  assumes dicts: "list_all is_dict vs"
  shows "((\<forall>p\<in>set (truthy_prices vs). \<exists>f. py_float E p = Inr f) \<longrightarrow>
            extract_price_range E (PList vs) =
              Inr (price_range_of (map (\<lambda>p. projr (py_float E p)) (truthy_prices vs))))
       \<and> ((\<exists>p\<in>set (truthy_prices vs). isl (py_float E p)) \<longrightarrow>
            isl (extract_price_range E (PList vs)))
       \<and> (\<forall>fs. fs \<noteq> [] \<and> NaN \<notin> set fs \<longrightarrow>
            py_min fs \<in> set fs \<and> py_max fs \<in> set fs
            \<and> (\<forall>f\<in>set fs. \<not> py_lt f (py_min fs) \<and> \<not> py_lt (py_max fs) f))"
proof (intro conjI impI allI)
  have assms: "\<forall>v\<in>set vs. is_dict v" using dicts by (simp add: list_all_iff)
  assume ok: "\<forall>p\<in>set (truthy_prices vs). \<exists>f. py_float E p = Inr f"
  have vp: "variant_prices E vs = Inr (map (\<lambda>p. projr (py_float E p)) (truthy_prices vs))"
    by (rule variant_prices_ok[OF assms ok])
  show "extract_price_range E (PList vs) =
          Inr (price_range_of (map (\<lambda>p. projr (py_float E p)) (truthy_prices vs)))"
  proof (cases "vs = []")
    case True
    then show ?thesis
      by (simp add: extract_price_range_def price_range_of_def truthy_prices_def)
  next
    case False
    then show ?thesis
      by (simp add: extract_price_range_def price_range_of_def vp)
  qed
next
  have assms: "\<forall>v\<in>set vs. is_dict v" using dicts by (simp add: list_all_iff)
  assume bad: "\<exists>p\<in>set (truthy_prices vs). isl (py_float E p)"
  then have ne: "vs \<noteq> []" by (auto simp: truthy_prices_def)
  have "isl (variant_prices E vs)" by (rule variant_prices_err[OF assms bad])
  with ne show "isl (extract_price_range E (PList vs))"
    by (auto simp: extract_price_range_def split: sum.splits)
next
  fix fs :: "pyfloat list"
  assume h: "fs \<noteq> [] \<and> NaN \<notin> set fs"
  then show "py_min fs \<in> set fs" using py_min_least by blast
  from h show "py_max fs \<in> set fs" using py_max_greatest by blast
  from h show "\<forall>f\<in>set fs. \<not> py_lt f (py_min fs) \<and> \<not> py_lt (py_max fs) f"
    using py_min_least py_max_greatest by blast
qed

theorem price_range_over_truthy_prices_witness:
  "list_all is_dict [PDict [(''price'', PInt 10)], PDict [(''price'', PInt 25)],
                     PDict [(''price'', PInt 10)]]
   \<and> extract_price_range test_env
        (PList [PDict [(''price'', PInt 10)], PDict [(''price'', PInt 25)],
                PDict [(''price'', PInt 10)]])
      = Inr [(''min_price'', PFloat (Fin 10)), (''max_price'', PFloat (Fin 25))]
   \<and> extract_price_range test_env (PList [PDict [(''title'', PStr ''S'')]]) = Inr []"
  using price_range_over_truthy_prices
          [of "[PDict [(''price'', PInt 10)], PDict [(''price'', PInt 25)],
                PDict [(''price'', PInt 10)]]" test_env]
        price_range_over_truthy_prices [of "[PDict [(''title'', PStr ''S'')]]" test_env]
  by (simp add: truthy_prices_def price_range_of_def test_env_def)

section \<open>Properties of the orchestrator\<close>

lemma fst_and_then:
  "fst (and_then m f) = (case fst m of Inl e \<Rightarrow> Inl e | Inr x \<Rightarrow> fst (f x))"
  by (cases m) (auto simp: and_then_def split: sum.splits prod.splits)

lemma only_returns_and_then:
  "(\<And>x. only_returns P (f x)) \<Longrightarrow> only_returns P (and_then m f)"
  by (cases "fst m") (simp_all add: only_returns_def fst_and_then)

lemma only_returns_if:
  "only_returns P a \<Longrightarrow> only_returns P b \<Longrightarrow> only_returns P (if c then a else b)"
  by simp

lemma only_returns_value: "P x \<Longrightarrow> only_returns P (Inr x, t)"
  by (simp add: only_returns_def)

lemma scrape_store_try_shape: "only_returns profile_or_none (scrape_store_try E website_url)"
  unfolding scrape_store_try_def Let_def
  apply (intro only_returns_and_then only_returns_if only_returns_value)
   apply (simp add: profile_or_none_def)
  apply (simp add: profile_or_none_def store_profile_def profile_fields_def)
  done

text \<open>
  C1: when \<open>scrape_store\<close> returns, it returns \<open>None\<close> (the not-found signal) or a
  dict whose items are the eleven declared fields, in order, each with a value of its
  kind: a string for \<open>store_name\<close>, \<open>website_url\<close>, \<open>privacy_policy\<close>,
  \<open>return_policy\<close> and \<open>brand_context\<close>, a list for \<open>products\<close>,
  \<open>hero_products\<close>, \<open>faqs\<close> and \<open>important_links\<close>, a dict for
  \<open>social_handles\<close> and \<open>contact_details\<close>. No field is absent or null. The only
  other outcome is the hard failure, an exception that is not a
  \<open>RequestException\<close>.
\<close>

theorem scrape_store_shape:
  "case fst (scrape_store E website_url) of
     Inl e \<Rightarrow> \<not> is_request_exception e
   | Inr None \<Rightarrow> True
   | Inr (Some insights) \<Rightarrow> store_profile insights"
proof -
  let ?w = "normalize_url website_url"
  have s: "only_returns profile_or_none (scrape_store_try E ?w)"
    by (rule scrape_store_try_shape)
  obtain r t where rt: "scrape_store_try E ?w = (r, t)" by (cases "scrape_store_try E ?w")
  show ?thesis
  proof (cases r)
    case (Inl e)
    with rt show ?thesis by (simp add: scrape_store_def Let_def)
  next
    case (Inr v)
    with rt s show ?thesis
      by (simp add: scrape_store_def Let_def only_returns_def profile_or_none_def split: option.splits)
  qed
qed

text \<open>
  C2: when the homepage request raises a \<open>RequestException\<close>, or answers with a
  status outside 200..299, \<open>scrape_store\<close> returns \<open>None\<close> as a value, whatever the
  rest of the environment is. The run has sent the homepage request, logged one
  error line and done nothing else: no other page was requested and no extractor
  left a line in the log.
\<close>

theorem unreachable_returns_none:
  assumes "(\<exists>m. session_get E (normalize_url website_url) = Inl (RequestException m))
         \<or> (\<exists>r. session_get E (normalize_url website_url) = Inr r
                \<and> \<not> (200 \<le> status_code r \<and> status_code r < 300))"
  shows "fst (scrape_store E website_url) = Inr None
       \<and> (\<exists>msg. snd (scrape_store E website_url)
                  = [HttpGet (normalize_url website_url), Log Error msg])"
  using assms
proof (elim disjE exE conjE)
  fix m assume "session_get E (normalize_url website_url) = Inl (RequestException m)"
  then show ?thesis
    by (simp add: scrape_store_def scrape_store_try_def and_then_def Let_def)
next
  fix r assume "session_get E (normalize_url website_url) = Inr r"
    "\<not> (200 \<le> status_code r \<and> status_code r < 300)"
  then have "session_get E (normalize_url website_url) = Inr r" "status_code r \<noteq> 200"
    by auto
  then show ?thesis
    by (simp add: scrape_store_def scrape_store_try_def and_then_def Let_def)
qed

text \<open>
  C10: a homepage status other than 200, also a 2xx one such as 201 or 204, makes
  \<open>scrape_store\<close> return \<open>None\<close>; and a profile is returned only when the
  homepage answered with status 200.
\<close>

theorem only_status_200_succeeds:
  "(\<forall>r. session_get E (normalize_url website_url) = Inr r \<longrightarrow> status_code r \<noteq> 200
        \<longrightarrow> fst (scrape_store E website_url) = Inr None)
   \<and> (\<forall>insights. fst (scrape_store E website_url) = Inr (Some insights)
        \<longrightarrow> (\<exists>r. session_get E (normalize_url website_url) = Inr r \<and> status_code r = 200))"
proof (intro conjI allI impI)
  fix r assume "session_get E (normalize_url website_url) = Inr r" "status_code r \<noteq> 200"
  then show "fst (scrape_store E website_url) = Inr None"
    by (simp add: scrape_store_def scrape_store_try_def and_then_def Let_def)
next
  fix insights assume ok: "fst (scrape_store E website_url) = Inr (Some insights)"
  show "\<exists>r. session_get E (normalize_url website_url) = Inr r \<and> status_code r = 200"
  proof (cases "session_get E (normalize_url website_url)")
    case (Inl e)
    with ok show ?thesis
      by (simp add: scrape_store_def scrape_store_try_def and_then_def Let_def split: if_splits)
  next
    case (Inr r)
    show ?thesis
    proof (cases "status_code r = 200")
      case True
      with Inr show ?thesis by simp
    next
      case False
      with Inr ok show ?thesis
        by (simp add: scrape_store_def scrape_store_try_def and_then_def Let_def)
    qed
  qed
qed


lemma fst_scrape_store:
  "fst (scrape_store E website_url) =
     (case fst (scrape_store_try E (normalize_url website_url)) of
        Inl e \<Rightarrow> if is_request_exception e then Inr None else Inl e
      | Inr r \<Rightarrow> Inr r)"
  by (cases "scrape_store_try E (normalize_url website_url)")
     (auto simp: scrape_store_def Let_def split: sum.splits)

lemma acme_get: "session_get (acme_site html soup) ''https://acme.com'' = Inr (page 200 html)"
  by (simp add: acme_site_def site_def)

lemma acme_parse: "beautiful_soup (acme_site html soup) html = Inr soup"
  by (simp add: acme_site_def site_def)

lemma acme_products: "fst (scrape_products (acme_site html soup) ''https://acme.com'') = []"
  by code_simp

lemma acme_privacy: "fst (scrape_privacy_policy (acme_site html soup) ''https://acme.com'') = Inr []"
  by code_simp

lemma acme_return: "fst (scrape_return_policy (acme_site html soup) ''https://acme.com'') = Inr []"
  by code_simp

lemma acme_faqs: "fst (scrape_faqs (acme_site html soup) ''https://acme.com'') = Inr []"
  by code_simp

lemma acme_brand: "fst (scrape_brand_context (acme_site html soup) ''https://acme.com'') = Inr []"
  by code_simp

lemma shop_store_name:
  "extract_store_name (acme_site html soup) shop_soup ''https://acme.com'' = Inr ''Acme Co''"
  by code_simp

lemma shop_hero:
  "fst (scrape_hero_products (acme_site html soup) shop_soup ''https://acme.com'') =
     [PDict [(''title'', PStr ''Mug''), (''url'', PStr ''https://acme.com/products/mug''),
             (''image'', PStr []), (''price'', PStr [])]]"
  by code_simp

lemma shop_social:
  "extract_social_handles shop_soup =
     [(''instagram'', PDict [(''handle'', PStr ''acmeshop''),
                             (''url'', PStr ''https://instagram.com/acmeshop'')])]"
  by code_simp

lemma shop_contact:
  "fst (extract_contact_details (acme_site html soup) shop_soup ''https://acme.com'') =
     Inr [(''phones'', PList [PStr '' ''])]"
  by code_simp

lemma shop_links:
  "extract_important_links (acme_site html soup) shop_soup ''https://acme.com'' =
     Inr [PDict [(''category'', PStr ''blog''), (''title'', PStr ''Blog''),
                 (''url'', PStr ''https://acme.com/blogs/news'')]]"
  by code_simp

lemma normalize_acme: "normalize_url ''acme.com'' = ''https://acme.com''"
  by (simp add: normalize_url_def startswith_def)

lemma shop_run: "fst (scrape_store shop_site ''acme.com'') = Inr (Some shop_insights)"
proof -
  have "fst (scrape_store_try shop_site ''https://acme.com'') = Inr (Some shop_insights)"
    by (simp add: scrape_store_try_def fst_and_then Let_def pure_step_def split_beta
          shop_site_def acme_get page_def acme_parse shop_store_name acme_products shop_hero
          acme_privacy acme_return acme_faqs shop_social shop_contact acme_brand shop_links
          shop_insights_def)
  then show ?thesis by (simp add: fst_scrape_store normalize_acme)
qed

theorem scrape_store_shape_witness:
  "fst (scrape_store shop_site ''acme.com'') = Inr (Some shop_insights)
   \<and> store_profile shop_insights"
  using scrape_store_shape [of shop_site "''acme.com''"] shop_run by simp

theorem unreachable_returns_none_witness:
  "scrape_store test_env ''acme.com'' =
     (Inr None,
      [HttpGet ''https://acme.com'',
       Log Error ''Network error while scraping https://acme.com: connection refused''])
   \<and> scrape_store (status_site 500) ''http://acme.com'' =
     (Inr None,
      [HttpGet ''http://acme.com'',
       Log Error ''Website not accessible: http://acme.com (Status: 500)''])"
proof -
  have n1: "normalize_url ''acme.com'' = ''https://acme.com''"
    by (simp add: normalize_url_def startswith_def)
  have n2: "normalize_url ''http://acme.com'' = ''http://acme.com''"
    by (simp add: normalize_url_def startswith_def)
  have g1: "session_get test_env ''https://acme.com'' = Inl (RequestException ''connection refused'')"
    by (simp add: test_env_def)
  have g2: "session_get (status_site 500) ''http://acme.com'' = Inr (page 500 [])"
    by (simp add: status_site_def)
  have s500: "str_of_int 500 = ''500''" by code_simp
  have a: "fst (scrape_store test_env ''acme.com'') = Inr None
       \<and> (\<exists>msg. snd (scrape_store test_env ''acme.com'')
                  = [HttpGet (normalize_url ''acme.com''), Log Error msg])"
    by (rule unreachable_returns_none) (simp add: n1 g1)
  have b: "fst (scrape_store (status_site 500) ''http://acme.com'') = Inr None
       \<and> (\<exists>msg. snd (scrape_store (status_site 500) ''http://acme.com'')
                  = [HttpGet (normalize_url ''http://acme.com''), Log Error msg])"
    by (rule unreachable_returns_none) (simp add: n2 g2 page_def)
  have c: "snd (scrape_store test_env ''acme.com'') =
      [HttpGet ''https://acme.com'',
       Log Error ''Network error while scraping https://acme.com: connection refused'']"
    by (simp add: scrape_store_def scrape_store_try_def and_then_def Let_def n1 g1)
  have d: "snd (scrape_store (status_site 500) ''http://acme.com'') =
      [HttpGet ''http://acme.com'',
       Log Error ''Website not accessible: http://acme.com (Status: 500)'']"
    by (simp add: scrape_store_def scrape_store_try_def and_then_def Let_def n2 g2 page_def s500)
  from a b c d show ?thesis by (simp add: prod_eq_iff)
qed

theorem only_status_200_succeeds_witness:
  "fst (scrape_store (status_site 204) ''acme.com'') = Inr None
   \<and> fst (scrape_store (status_site 201) ''acme.com'') = Inr None
   \<and> fst (scrape_store shop_site ''acme.com'') = Inr (Some shop_insights)
   \<and> session_get shop_site (normalize_url ''acme.com'') = Inr (page 200 shop_html)
   \<and> status_code (page 200 shop_html) = 200"
proof -
  have n: "normalize_url ''acme.com'' = ''https://acme.com''"
    by (simp add: normalize_url_def startswith_def)
  have g: "\<And>s. session_get (status_site s) ''https://acme.com'' = Inr (page s [])"
    by (simp add: status_site_def)
  from only_status_200_succeeds [of "status_site 204" "''acme.com''"]
  have a: "fst (scrape_store (status_site 204) ''acme.com'') = Inr None"
    by (simp add: n g page_def)
  from only_status_200_succeeds [of "status_site 201" "''acme.com''"]
  have b: "fst (scrape_store (status_site 201) ''acme.com'') = Inr None"
    by (simp add: n g page_def)
  from only_status_200_succeeds [of shop_site "''acme.com''"] shop_run
  have c: "\<exists>r. session_get shop_site (normalize_url ''acme.com'') = Inr r \<and> status_code r = 200"
    by blast
  from a b c shop_run show ?thesis by (simp add: n shop_site_def acme_get page_def)
qed



section \<open>Failure isolation\<close>

lemma blog_store_name:
  "extract_store_name (acme_site html soup) blog_soup ''https://acme.com'' = Inr ''Acme''"
  by code_simp

lemma blog_hero:
  "fst (scrape_hero_products (acme_site html soup) blog_soup ''https://acme.com'') = []"
  by code_simp

lemma blog_social: "extract_social_handles blog_soup = []"
  by code_simp

lemma blog_contact:
  "fst (extract_contact_details (acme_site html soup) blog_soup ''https://acme.com'') = Inr []"
  by code_simp

lemma blog_links:
  "extract_important_links (acme_site html soup) blog_soup ''https://acme.com'' =
     Inl (OtherException ''ValueError'' ''Invalid IPv6 URL'')"
  by code_simp

text \<open>
  C3 does not hold of the code: \<open>_extract_important_links\<close> calls \<open>urljoin\<close> outside
  any \<open>try\<close>. On a homepage with the link \<^verbatim>\<open><a href=http://[blog>Blog</a>\<close> the
  \<open>ValueError\<close> of \<open>urljoin\<close> leaves the extractor and \<open>scrape_store\<close> raises it,
  after every other extractor has run; no profile is returned.
\<close>

theorem important_links_exception_propagates:
  "extract_important_links blog_site blog_soup ''https://acme.com'' =
     Inl (OtherException ''ValueError'' ''Invalid IPv6 URL'')
   \<and> fst (scrape_store blog_site ''acme.com'') =
     Inl (OtherException ''ValueError'' ''Invalid IPv6 URL'')"
proof -
  have "fst (scrape_store_try blog_site ''https://acme.com'') =
          Inl (OtherException ''ValueError'' ''Invalid IPv6 URL'')"
    by (simp add: scrape_store_try_def fst_and_then Let_def pure_step_def split_beta
          blog_site_def acme_get page_def acme_parse blog_store_name acme_products blog_hero
          acme_privacy acme_return acme_faqs blog_social blog_contact acme_brand blog_links)
  then show ?thesis
    by (simp add: fst_scrape_store normalize_acme blog_links blog_site_def)
qed

section \<open>Social handles, contact details and store name on the failing inputs\<close>

text \<open>
  C4 does not hold of the code: the loop over the links runs again for the second
  pattern of a platform without asking whether the platform is matched already. With
  the links \<open>https://instagram.com/acmeshop\<close> and \<open>mailto:hello@acme.com\<close> the
  first pattern records \<open>acmeshop\<close>, and the second pattern, \<^verbatim>\<open>@([a-zA-Z0-9_.]+)\<close>,
  matches the mail link and replaces the entry. Without the mail link the entry is
  the one of the first match.
\<close>

theorem social_handle_later_pattern_overwrites:
  "extract_social_handles mailto_soup =
     [(''instagram'',
       PDict [(''handle'', PStr ''acme.com''), (''url'', PStr ''mailto:hello@acme.com'')])]
   \<and> extract_social_handles
       (Tag ''[document]'' []
          [Tag ''a'' [(''href'', ''https://instagram.com/acmeshop'')]
             [NavigableString ''Instagram'']]) =
     [(''instagram'',
       PDict [(''handle'', PStr ''acmeshop''),
              (''url'', PStr ''https://instagram.com/acmeshop'')])]"
  by code_simp

text \<open>
  C7 does not hold of the code: the phone pattern has a group, so \<open>re.findall\<close>
  returns the text of the group, the optional prefix, and not the number. On the
  page text \<open>555-123-4567\<close> the \<open>phones\<close> entry is the list of one empty string; the
  whole match, which \<open>findall\<close> would give for a pattern without a group, is the
  number.
\<close>

theorem phones_are_group_text:
  "fst (extract_contact_details (site [] []) phone_soup ''https://acme.com'') =
     Inr [(''phones'', PList [PStr []])]
   \<and> map group0 (matches_from phone_pattern 0 (None, ''555-123-4567'')) = [''555-123-4567'']"
  by code_simp

text \<open>
  C8 does not hold of the code: the site-name metadata is tested before it is
  stripped. On a homepage without a title whose \<open>og:site_name\<close> content is one
  space the store name is the empty string.
\<close>

theorem store_name_empty_on_blank_site_name:
  "extract_store_name test_env blank_site_name_soup ''https://acme.com'' = Inr []"
  by code_simp

text \<open>The two examples of the store name: the title \<open>Acme Co - Shop Online\<close>, and the
  domain \<open>www.acme-goods.com\<close> when the homepage has no title, metadata or image.\<close>

lemma store_name_title_example:
  "extract_store_name E
     (Tag ''[document]'' [] [Tag ''title'' [] [NavigableString ''Acme Co - Shop Online'']])
     website_url = Inr ''Acme Co''"
  by code_simp

lemma store_name_domain_example:
  "urlparse_netloc E website_url = Inr ''www.acme-goods.com'' \<Longrightarrow>
   extract_store_name E (Tag ''[document]'' [] []) website_url = Inr ''Acme-Goods''"
proof -
  assume n: "urlparse_netloc E website_url = Inr ''www.acme-goods.com''"
  have d: "domain_name ''www.acme-goods.com'' = ''Acme-Goods''" by code_simp
  have f: "\<And>t. find (Tag ''[document]'' [] []) t = None"
    by (simp add: find_def find_all_def find_all_located_def)
  show ?thesis
    by (simp add: extract_store_name_def f n after_def d)
qed



section \<open>Properties of the hero product extractor\<close>













section \<open>Properties of the FAQ extractor\<close>

lemma fst_with_events: "fst (with_events t m) = fst m"
  by (cases m) (simp add: with_events_def)

lemma probe_paths_result:
  "fst (probe_paths E w message handler empty_result url_var paths) = Inr x \<Longrightarrow>
   x = empty_result
   \<or> (\<exists>url response t. session_get E url = Inr response \<and> status_code response = 200
        \<and> handler url response = Inr (Some (x, t)))"
proof (induction paths arbitrary: url_var)
  case Nil
  then show ?case by simp
next
  case (Cons path paths)
  show ?case
  proof (cases "urljoin E w (''/'' @ path)")
    case (Inl e)
    with Cons.prems obtain u where "url_var = Some u"
      "fst (probe_paths E w message handler empty_result url_var paths) = Inr x"
      by (cases url_var) (auto simp: fst_with_events)
    with Cons.IH show ?thesis by blast
  next
    case (Inr url)
    note url = Inr
    show ?thesis
    proof (cases "session_get E url")
      case (Inl e)
      with url Cons.prems
      have "fst (probe_paths E w message handler empty_result (Some url) paths) = Inr x"
        by (simp add: fst_with_events)
      with Cons.IH show ?thesis by blast
    next
      case (Inr response)
      note resp = Inr
      show ?thesis
      proof (cases "status_code response = 200")
        case False
        with url resp Cons.prems
        have "fst (probe_paths E w message handler empty_result (Some url) paths) = Inr x"
          by (simp add: fst_with_events)
        with Cons.IH show ?thesis by blast
      next
        case True
        show ?thesis
        proof (cases "handler url response")
          case (Inl e)
          with url resp True Cons.prems
          have "fst (probe_paths E w message handler empty_result (Some url) paths) = Inr x"
            by (simp add: fst_with_events)
          with Cons.IH show ?thesis by blast
        next
          case (Inr r)
          show ?thesis
          proof (cases r)
            case None
            with Inr url resp True Cons.prems
            have "fst (probe_paths E w message handler empty_result (Some url) paths) = Inr x"
              by (simp add: fst_with_events)
            with Cons.IH show ?thesis by blast
          next
            case (Some xt)
            obtain y t where xt: "xt = (y, t)" by (cases xt)
            with Some Inr url resp True Cons.prems have "y = x" by simp
            with Some Inr xt resp True show ?thesis by blast
          qed
        qed
      qed
    qed
  qed
qed

lemma faq_of_question_Some:
  "faq_of_question q = Some f \<longleftrightarrow>
     (\<exists>a. find_next_sibling q [''p'', ''div'', ''dd''] = Some a
        \<and> f = PDict [(''question'', PStr (strip (get_text (el q)))),
                     (''answer'', PStr (strip (get_text a)))]
        \<and> CHR ''?'' \<in> set (strip (get_text (el q)))
        \<and> strip (get_text a) \<noteq> [])"
  by (auto simp: faq_of_question_def Let_def split: option.splits)

lemma faqs_of_soup_member:
  "f \<in> set (faqs_of_soup soup) \<Longrightarrow>
   \<exists>section q. section \<in> set (faq_sections soup) \<and> q \<in> set (questions section)
      \<and> faq_of_question q = Some f"
  by (auto simp: faqs_of_soup_def List.map_filter_def) blast

lemma find_next_sibling_first:
  "find_next_sibling q names = Some a \<Longrightarrow>
   \<exists>before rest. next_siblings q = before @ a # rest \<and> is_named names a
      \<and> list_all (\<lambda>b. \<not> is_named names b) before"
proof -
  assume "find_next_sibling q names = Some a"
  then have "List.find (is_named names) (next_siblings q) = Some a"
    by (simp add: find_next_sibling_def)
  then obtain i where i: "i < length (next_siblings q)" "is_named names (next_siblings q ! i)"
    "a = next_siblings q ! i" "\<forall>j<i. \<not> is_named names (next_siblings q ! j)"
    by (auto simp: find_Some_iff)
  let ?s = "next_siblings q"
  have "?s = take i ?s @ a # drop (Suc i) ?s" using i by (simp add: id_take_nth_drop)
  moreover have "list_all (\<lambda>b. \<not> is_named names b) (take i ?s)"
    using i by (auto simp: list_all_length)
  ultimately show ?thesis using i by blast
qed

text \<open>
  C6: every FAQ that \<open>_scrape_faqs\<close> returns comes from a heading \<open>q\<close> of an FAQ
  section of a page that answered 200: its question is the text of the heading and
  contains a question mark, its answer is the text of \<open>a\<close>, the first sibling after
  the heading that is a \<open>p\<close>, \<open>div\<close> or \<open>dd\<close> element, and is not empty. A
  heading with no such sibling, or whose such sibling has no text, gives no FAQ, and
  a heading without a question mark gives none whatever follows it.
\<close>

theorem faqs_have_question_mark_and_answer:
  assumes "fst (scrape_faqs E website_url) = Inr faqs" and "f \<in> set faqs"
  shows "(\<exists>url response soup section q a before rest.
            session_get E url = Inr response \<and> status_code response = 200
          \<and> beautiful_soup E (content response) = Inr soup
          \<and> section \<in> set (faq_sections soup) \<and> q \<in> set (questions section)
          \<and> next_siblings q = before @ a # rest
          \<and> is_named [''p'', ''div'', ''dd''] a
          \<and> list_all (\<lambda>b. \<not> is_named [''p'', ''div'', ''dd''] b) before
          \<and> f = PDict [(''question'', PStr (strip (get_text (el q)))),
                       (''answer'', PStr (strip (get_text a)))]
          \<and> CHR ''?'' \<in> set (strip (get_text (el q)))
          \<and> strip (get_text a) \<noteq> [])
       \<and> (\<forall>q. find_next_sibling q [''p'', ''div'', ''dd''] = None \<longrightarrow> faq_of_question q = None)
       \<and> (\<forall>q a. find_next_sibling q [''p'', ''div'', ''dd''] = Some a \<and> strip (get_text a) = []
              \<longrightarrow> faq_of_question q = None)
       \<and> (\<forall>q::located. CHR ''?'' \<notin> set (strip (get_text (el q))) \<longrightarrow> faq_of_question q = None)"
proof (intro conjI allI impI)
  from assms(2) have ne: "faqs \<noteq> []" by auto
  from probe_paths_result[OF assms(1)[unfolded scrape_faqs_def]] ne
  obtain url response t where p: "session_get E url = Inr response" "status_code response = 200"
    "faq_page E url response = Inr (Some (faqs, t))" by blast
  from p(3) obtain soup where soup: "beautiful_soup E (content response) = Inr soup"
    "faqs = faqs_of_soup soup"
    by (cases "beautiful_soup E (content response)")
       (auto simp: faq_page_def after_def Let_def split: if_splits)
  from faqs_of_soup_member assms(2) soup(2) obtain sec q where
    q: "sec \<in> set (faq_sections soup)" "q \<in> set (questions sec)"
       "faq_of_question q = Some f" by blast
  from q(3) obtain a where a: "find_next_sibling q [''p'', ''div'', ''dd''] = Some a"
    "f = PDict [(''question'', PStr (strip (get_text (el q)))),
                (''answer'', PStr (strip (get_text a)))]"
    "CHR ''?'' \<in> set (strip (get_text (el q)))" "strip (get_text a) \<noteq> []"
    unfolding faq_of_question_Some by blast
  from find_next_sibling_first[OF a(1)] obtain before rest where
    b: "next_siblings q = before @ a # rest" "is_named [''p'', ''div'', ''dd''] a"
       "list_all (\<lambda>b. \<not> is_named [''p'', ''div'', ''dd''] b) before" by blast
  from p soup q a b
  show "\<exists>url response soup section q a before rest.
            session_get E url = Inr response \<and> status_code response = 200
          \<and> beautiful_soup E (content response) = Inr soup
          \<and> section \<in> set (faq_sections soup) \<and> q \<in> set (questions section)
          \<and> next_siblings q = before @ a # rest
          \<and> is_named [''p'', ''div'', ''dd''] a
          \<and> list_all (\<lambda>b. \<not> is_named [''p'', ''div'', ''dd''] b) before
          \<and> f = PDict [(''question'', PStr (strip (get_text (el q)))),
                       (''answer'', PStr (strip (get_text a)))]
          \<and> CHR ''?'' \<in> set (strip (get_text (el q)))
          \<and> strip (get_text a) \<noteq> []"
    by blast
next
  fix q assume "find_next_sibling q [''p'', ''div'', ''dd''] = None"
  then show "faq_of_question q = None" by (simp add: faq_of_question_def Let_def)
next
  fix q a assume "find_next_sibling q [''p'', ''div'', ''dd''] = Some a \<and> strip (get_text a) = []"
  then show "faq_of_question q = None" by (simp add: faq_of_question_def Let_def)
next
  fix q :: located assume "CHR ''?'' \<notin> set (strip (get_text (el q)))"
  then show "faq_of_question q = None" by (simp add: faq_of_question_def Let_def)
qed


lemma faq_site_faqs: "fst (scrape_faqs faq_site ''https://acme.com'') = Inr [shipping_faq]"
  by code_simp

theorem faqs_have_question_mark_and_answer_witness:
  "fst (scrape_faqs faq_site ''https://acme.com'') = Inr [shipping_faq]
   \<and> shipping_faq \<in> set [shipping_faq]
   \<and> (\<exists>(q::located) a. shipping_faq = PDict [(''question'', PStr (strip (get_text (el q)))),
                                       (''answer'', PStr (strip (get_text a)))]
          \<and> CHR ''?'' \<in> set (strip (get_text (el q)))
          \<and> strip (get_text a) \<noteq> [])"
proof -
  have m: "shipping_faq \<in> set [shipping_faq]" by simp
  from faqs_have_question_mark_and_answer [OF faq_site_faqs m]
  have "\<exists>(q::located) a. shipping_faq = PDict [(''question'', PStr (strip (get_text (el q)))),
                                     (''answer'', PStr (strip (get_text a)))]
          \<and> CHR ''?'' \<in> set (strip (get_text (el q)))
          \<and> strip (get_text a) \<noteq> []"
    by blast
  with faq_site_faqs m show ?thesis by blast
qed

end
